theory Spec2Isabelle
  imports
    Main
    "HOL-Library.Word"
    "HOL-Library.Char_ord"
    "HOL-Library.List_Lexorder"
    "HOL-Library.Multiset"
begin

unbundle bit_operations_syntax

section \<open>Bytes and strings\<close>

text \<open>
  A Go \<^verbatim>\<open>string\<close> is a sequence of bytes, here a \<^typ>\<open>string\<close> (a list of 8-bit
  characters); a \<^verbatim>\<open>[]byte\<close> is a list of 8-bit words. \<open>bytes_of\<close> is the conversion
  \<^verbatim>\<open>[]byte(s)\<close> and \<open>string_of\<close> is \<^verbatim>\<open>string(b)\<close>.
\<close>

type_synonym byte = "8 word"
type_synonym u32 = "32 word"

definition bytes_of :: "string \<Rightarrow> byte list" where
  "bytes_of s = map (\<lambda>c. of_nat (of_char c)) s"

definition string_of :: "byte list \<Rightarrow> string" where
  "string_of bs = map (\<lambda>b. char_of (unat b)) bs"

section \<open>encoding/hex\<close>

datatype hex_error = InvalidByteError char | ErrLength

definition hextable :: string where
  "hextable = ''0123456789abcdef''"

text \<open>\<^verbatim>\<open>hex.EncodeToString\<close>: two lower-case digits for every byte.\<close>

definition hex_EncodeToString :: "byte list \<Rightarrow> string" where
  "hex_EncodeToString src =
     concat (map (\<lambda>v. [hextable ! unat (drop_bit 4 v), hextable ! unat (v AND 0x0f)]) src)"

text \<open>A byte in a range of the character set, as in \<^verbatim>\<open>'a' <= c && c <= 'f'\<close>.\<close>

definition between :: "char \<Rightarrow> char \<Rightarrow> char \<Rightarrow> bool" where
  "between lo c hi \<longleftrightarrow> lo \<le> c \<and> c \<le> hi"

text \<open>The value of one hexadecimal digit, of either case; \<open>None\<close> for any other byte.\<close>

definition fromHexChar :: "char \<Rightarrow> byte option" where
  "fromHexChar c =
     (if between CHR ''0'' c CHR ''9'' then Some (of_nat (of_char c - 48))
      else if between CHR ''a'' c CHR ''f'' then Some (of_nat (of_char c - 97 + 10))
      else if between CHR ''A'' c CHR ''F'' then Some (of_nat (of_char c - 65 + 10))
      else None)"

text \<open>
  \<^verbatim>\<open>hex.DecodeString\<close>: the input is read two characters at a time. At the first
  character that is no hexadecimal digit, or at a trailing single character, decoding
  stops with an error, and the bytes decoded before the error are returned with it.
\<close>

fun hex_DecodeString :: "string \<Rightarrow> byte list \<times> hex_error option" where
  "hex_DecodeString (p # q # r) =
     (case fromHexChar p of
        None \<Rightarrow> ([], Some (InvalidByteError p))
      | Some a \<Rightarrow>
          (case fromHexChar q of
             None \<Rightarrow> ([], Some (InvalidByteError q))
           | Some b \<Rightarrow>
               (case hex_DecodeString r of
                  (bs, e) \<Rightarrow> ((push_bit 4 a OR b) # bs, e))))"
| "hex_DecodeString [p] =
     (case fromHexChar p of
        None \<Rightarrow> ([], Some (InvalidByteError p))
      | Some a \<Rightarrow> ([], Some ErrLength))"
| "hex_DecodeString [] = ([], None)"

section \<open>crypto/subtle and hmac.Equal\<close>

text \<open>
  \<^verbatim>\<open>subtle.ConstantTimeCompare\<close> returns 0 at once when the lengths differ; otherwise
  it folds the XOR of every pair of bytes into one byte and tests that byte for zero.
\<close>

fun ctc_loop :: "byte \<Rightarrow> byte list \<Rightarrow> byte list \<Rightarrow> byte" where
  "ctc_loop v (a # x) (b # y) = ctc_loop (v OR (a XOR b)) x y"
| "ctc_loop v _ _ = v"

definition ConstantTimeByteEq :: "byte \<Rightarrow> byte \<Rightarrow> int" where
  "ConstantTimeByteEq x y = uint (drop_bit 31 ((ucast (x XOR y) :: u32) - 1))"

definition ConstantTimeCompare :: "byte list \<Rightarrow> byte list \<Rightarrow> int" where
  "ConstantTimeCompare x y =
     (if length x \<noteq> length y then 0 else ConstantTimeByteEq (ctc_loop 0 x y) 0)"

definition hmac_Equal :: "byte list \<Rightarrow> byte list \<Rightarrow> bool" where
  "hmac_Equal mac1 mac2 \<longleftrightarrow> ConstantTimeCompare mac1 mac2 = 1"

section \<open>crypto/sha256 and crypto/hmac\<close>

definition rotr :: "nat \<Rightarrow> u32 \<Rightarrow> u32" where
  "rotr n x = drop_bit n x OR push_bit (32 - n) x"

definition sha256_K :: "u32 list" where
  "sha256_K = [
    0x428A2F98, 0x71374491, 0xB5C0FBCF, 0xE9B5DBA5, 0x3956C25B, 0x59F111F1, 0x923F82A4, 0xAB1C5ED5,
    0xD807AA98, 0x12835B01, 0x243185BE, 0x550C7DC3, 0x72BE5D74, 0x80DEB1FE, 0x9BDC06A7, 0xC19BF174,
    0xE49B69C1, 0xEFBE4786, 0x0FC19DC6, 0x240CA1CC, 0x2DE92C6F, 0x4A7484AA, 0x5CB0A9DC, 0x76F988DA,
    0x983E5152, 0xA831C66D, 0xB00327C8, 0xBF597FC7, 0xC6E00BF3, 0xD5A79147, 0x06CA6351, 0x14292967,
    0x27B70A85, 0x2E1B2138, 0x4D2C6DFC, 0x53380D13, 0x650A7354, 0x766A0ABB, 0x81C2C92E, 0x92722C85,
    0xA2BFE8A1, 0xA81A664B, 0xC24B8B70, 0xC76C51A3, 0xD192E819, 0xD6990624, 0xF40E3585, 0x106AA070,
    0x19A4C116, 0x1E376C08, 0x2748774C, 0x34B0BCB5, 0x391C0CB3, 0x4ED8AA4A, 0x5B9CCA4F, 0x682E6FF3,
    0x748F82EE, 0x78A5636F, 0x84C87814, 0x8CC70208, 0x90BEFFFA, 0xA4506CEB, 0xBEF9A3F7, 0xC67178F2]"

type_synonym regs = "u32 \<times> u32 \<times> u32 \<times> u32 \<times> u32 \<times> u32 \<times> u32 \<times> u32"

definition sha256_init :: regs where
  "sha256_init =
     (0x6A09E667, 0xBB67AE85, 0x3C6EF372, 0xA54FF53A, 0x510E527F, 0x9B05688C, 0x1F83D9AB, 0x5BE0CD19)"

text \<open>The sixteen big-endian words of a 64-byte chunk.\<close>

fun be32 :: "byte list \<Rightarrow> u32 list" where
  "be32 (a # b # c # d # r) =
     (push_bit 24 (ucast a) OR push_bit 16 (ucast b) OR push_bit 8 (ucast c) OR ucast d) # be32 r"
| "be32 _ = []"

text \<open>The message schedule: word \<open>i\<close> from the words before it, for \<open>i\<close> from 16 to 63.\<close>

definition wnext :: "nat \<Rightarrow> u32 list \<Rightarrow> u32" where
  "wnext i w =
     (let v1 = w ! (i - 2);
          t1 = rotr 17 v1 XOR rotr 19 v1 XOR drop_bit 10 v1;
          v2 = w ! (i - 15);
          t2 = rotr 7 v2 XOR rotr 18 v2 XOR drop_bit 3 v2
      in t1 + w ! (i - 7) + t2 + w ! (i - 16))"

function schedule :: "nat \<Rightarrow> u32 list \<Rightarrow> u32 list" where
  "schedule i w = (if i < 64 then schedule (i + 1) (w @ [wnext i w]) else w)"
  by pat_completeness auto
termination
  by (relation "measure (\<lambda>(i, w). 64 - i)") auto

declare schedule.simps [simp del]

fun round1 :: "u32 \<Rightarrow> u32 \<Rightarrow> regs \<Rightarrow> regs" where
  "round1 k wi (a, b, c, d, e, f, g, h) =
     (let t1 = h + (rotr 6 e XOR rotr 11 e XOR rotr 25 e) + ((e AND f) XOR (NOT e AND g)) + k + wi;
          t2 = (rotr 2 a XOR rotr 13 a XOR rotr 22 a) + ((a AND b) XOR (a AND c) XOR (b AND c))
      in (t1 + t2, a, b, c, d + t1, e, f, g))"

fun rounds :: "u32 list \<Rightarrow> u32 list \<Rightarrow> regs \<Rightarrow> regs" where
  "rounds (k # ks) (wi # ws) s = rounds ks ws (round1 k wi s)"
| "rounds _ _ s = s"

fun add_regs :: "regs \<Rightarrow> regs \<Rightarrow> regs" where
  "add_regs (h0, h1, h2, h3, h4, h5, h6, h7) (a, b, c, d, e, f, g, h) =
     (h0 + a, h1 + b, h2 + c, h3 + d, h4 + e, h5 + f, h6 + g, h7 + h)"

definition sha256_block :: "regs \<Rightarrow> byte list \<Rightarrow> regs" where
  "sha256_block s p = add_regs s (rounds sha256_K (schedule 16 (be32 p)) s)"

function sha256_blocks :: "regs \<Rightarrow> byte list \<Rightarrow> regs" where
  "sha256_blocks s p =
     (if 64 \<le> length p then sha256_blocks (sha256_block s (take 64 p)) (drop 64 p) else s)"
  by pat_completeness auto
termination
  by (relation "measure (\<lambda>(s, p). length p)") auto

declare sha256_blocks.simps [simp del]

definition be64 :: "64 word \<Rightarrow> byte list" where
  "be64 x = map (\<lambda>i. ucast (drop_bit (8 * (7 - i)) x)) [0..<8]"

text \<open>
  The padding of the final sum: a 1 bit, 0 bits up to 56 bytes modulo 64, and the
  length of the message in bits as a big-endian 64-bit integer.
\<close>

definition sha256_pad :: "byte list \<Rightarrow> byte list" where
  "sha256_pad m =
     (let len = length m;
          t = (if len mod 64 < 56 then 56 - len mod 64 else 64 + 56 - len mod 64)
      in m @ [0x80] @ replicate (t - 1) 0 @ be64 (push_bit 3 (of_nat len)))"

fun u32_bytes :: "u32 \<Rightarrow> byte list" where
  "u32_bytes x = [ucast (drop_bit 24 x), ucast (drop_bit 16 x), ucast (drop_bit 8 x), ucast x]"

fun regs_bytes :: "regs \<Rightarrow> byte list" where
  "regs_bytes (a, b, c, d, e, f, g, h) = concat (map u32_bytes [a, b, c, d, e, f, g, h])"

definition sha256_Sum :: "byte list \<Rightarrow> byte list" where
  "sha256_Sum m = regs_bytes (sha256_blocks sha256_init (sha256_pad m))"

text \<open>
  \<^verbatim>\<open>hmac.New(sha256.New, key)\<close>, \<^verbatim>\<open>Write(m)\<close> and \<^verbatim>\<open>Sum(nil)\<close>: a key longer than the
  block size of 64 bytes is hashed first; the key is padded with zeros to the block size.
\<close>

definition hmac_key :: "byte list \<Rightarrow> byte list" where
  "hmac_key key = (if 64 < length key then sha256_Sum key else key)"

definition hmac_pad :: "byte \<Rightarrow> byte list \<Rightarrow> byte list" where
  "hmac_pad c k = map (\<lambda>b. b XOR c) (k @ replicate (64 - length k) 0)"

definition hmac_sha256 :: "byte list \<Rightarrow> byte list \<Rightarrow> byte list" where
  "hmac_sha256 key m =
     sha256_Sum (hmac_pad 0x5c (hmac_key key) @ sha256_Sum (hmac_pad 0x36 (hmac_key key) @ m))"

section \<open>Errors\<close>

text \<open>
  The \<^verbatim>\<open>error\<close> values that occur: the strings of \<^verbatim>\<open>errors.New\<close> and \<^verbatim>\<open>fmt.Errorf\<close>,
  the \<^verbatim>\<open>CorruptInputError\<close> of encoding/base64 (the offset of the offending input byte),
  the \<^verbatim>\<open>EscapeError\<close> of net/url, and whatever error the reader of a request body
  reports.
\<close>

datatype go_error =
    ErrorString string
  | CorruptInputError nat
  | EscapeError string
  | ReadError string

datatype 'a outcome = Returns 'a | Panics string

text \<open>The verb \<^verbatim>\<open>%d\<close> of \<^verbatim>\<open>fmt\<close> on a length.\<close>

definition digits :: string where
  "digits = ''0123456789''"

function fmt_d :: "nat \<Rightarrow> string" where
  "fmt_d n = (if n < 10 then [digits ! n] else fmt_d (n div 10) @ [digits ! (n mod 10)])"
  by pat_completeness auto
termination
  by (relation "measure id") auto

declare fmt_d.simps [simp del]

section \<open>encoding/base64, the standard encoding\<close>

definition encodeStd :: string where
  "encodeStd = ''ABCDEFGHIJKLMNOPQRSTUVWXYZabcdefghijklmnopqrstuvwxyz0123456789+/''"

definition b64_enc :: "u32 \<Rightarrow> char" where
  "b64_enc v = encodeStd ! unat (v AND 0x3F)"

fun b64_EncodeToString :: "byte list \<Rightarrow> string" where
  "b64_EncodeToString (a # b # c # r) =
     (let val = push_bit 16 (ucast a) OR push_bit 8 (ucast b) OR ucast c
      in [b64_enc (drop_bit 18 val), b64_enc (drop_bit 12 val), b64_enc (drop_bit 6 val), b64_enc val])
     @ b64_EncodeToString r"
| "b64_EncodeToString [a, b] =
     (let val = push_bit 16 (ucast a) OR push_bit 8 (ucast b)
      in [b64_enc (drop_bit 18 val), b64_enc (drop_bit 12 val), b64_enc (drop_bit 6 val), CHR ''=''])"
| "b64_EncodeToString [a] =
     (let val = push_bit 16 (ucast a)
      in [b64_enc (drop_bit 18 val), b64_enc (drop_bit 12 val), CHR ''='', CHR ''=''])"
| "b64_EncodeToString [] = []"

text \<open>The decoding table: the position of a character in the alphabet, if it is there.\<close>

definition decodeMap :: "char \<Rightarrow> u32 option" where
  "decodeMap c = map_of (zip encodeStd (map of_nat [0..<64])) c"

definition is_newline :: "char \<Rightarrow> bool" where
  "is_newline c \<longleftrightarrow> c = CHR 0x0A \<or> c = CHR 0x0D"

fun skip_newlines :: "string \<Rightarrow> nat \<Rightarrow> string \<times> nat" where
  "skip_newlines (c # cs) si = (if is_newline c then skip_newlines cs (si + 1) else (c # cs, si))"
| "skip_newlines [] si = ([], si)"

text \<open>
  The bytes of one quantum of two, three or four 6-bit values: one byte less than
  there are values.
\<close>

definition quantum_bytes :: "u32 list \<Rightarrow> byte list" where
  "quantum_bytes dbuf =
     (let d = dbuf @ replicate (4 - length dbuf) 0;
          val = push_bit 18 (d ! 0) OR push_bit 12 (d ! 1) OR push_bit 6 (d ! 2) OR d ! 3
      in take (length dbuf - 1) [ucast (drop_bit 16 val), ucast (drop_bit 8 val), ucast val])"

text \<open>Trailing input after the padding of the last quantum is an error at its offset.\<close>

definition after_padding :: "string \<times> nat \<Rightarrow> u32 list \<Rightarrow> byte list \<times> go_error option" where
  "after_padding r dbuf =
     (case r of (rest, si) \<Rightarrow>
        (quantum_bytes dbuf, if rest \<noteq> [] then Some (CorruptInputError si) else None))"

text \<open>
  \<^verbatim>\<open>base64.StdEncoding.DecodeString\<close>. \<open>si\<close> is the offset of the next input byte and
  \<open>dbuf\<close> holds the 6-bit values of the quantum being read. Carriage returns and line
  feeds are skipped; padding is required and ends the input; the bytes of the quanta
  decoded before an error are returned together with the error.
\<close>

fun b64_decode :: "string \<Rightarrow> nat \<Rightarrow> u32 list \<Rightarrow> byte list \<times> go_error option" where
  "b64_decode [] si dbuf =
     (if dbuf = [] then ([], None) else ([], Some (CorruptInputError (si - length dbuf))))"
| "b64_decode (c # cs) si dbuf =
     (case decodeMap c of
        Some out \<Rightarrow>
          (if length dbuf = 3
           then (case b64_decode cs (si + 1) [] of
                   (bs, e) \<Rightarrow> (quantum_bytes (dbuf @ [out]) @ bs, e))
           else b64_decode cs (si + 1) (dbuf @ [out]))
      | None \<Rightarrow>
          (if is_newline c then b64_decode cs (si + 1) dbuf
           else if c \<noteq> CHR ''='' then ([], Some (CorruptInputError si))
           else if length dbuf < 2 then ([], Some (CorruptInputError si))
           else if length dbuf = 2 then
             (case skip_newlines cs (si + 1) of
                ([], si') \<Rightarrow> ([], Some (CorruptInputError si'))
              | (c' # cs', si') \<Rightarrow>
                  (if c' \<noteq> CHR ''='' then ([], Some (CorruptInputError (si' - 1)))
                   else after_padding (skip_newlines cs' (si' + 1)) dbuf))
           else after_padding (skip_newlines cs (si + 1)) dbuf))"

definition b64_DecodeString :: "string \<Rightarrow> byte list \<times> go_error option" where
  "b64_DecodeString s = b64_decode s 0 []"

section \<open>net/url: escaping, query values, URLs\<close>

text \<open>\<^verbatim>\<open>shouldEscape\<close> in the mode \<^verbatim>\<open>encodeQueryComponent\<close>.\<close>

definition shouldEscape :: "char \<Rightarrow> bool" where
  "shouldEscape c \<longleftrightarrow>
     \<not> (between CHR ''a'' c CHR ''z'' \<or> between CHR ''A'' c CHR ''Z'' \<or>
        between CHR ''0'' c CHR ''9'' \<or> c \<in> set ''-_.~'')"

definition upperhex :: string where
  "upperhex = ''0123456789ABCDEF''"

definition escape_char :: "char \<Rightarrow> string" where
  "escape_char c =
     (if shouldEscape c then
        (if c = CHR '' '' then ''+''
         else [CHR ''%'', upperhex ! (of_char c div 16), upperhex ! (of_char c mod 16)])
      else [c])"

definition QueryEscape :: "string \<Rightarrow> string" where
  "QueryEscape s = concat (map escape_char s)"

definition ishex :: "char \<Rightarrow> bool" where
  "ishex c \<longleftrightarrow>
     between CHR ''0'' c CHR ''9'' \<or> between CHR ''a'' c CHR ''f'' \<or>
     between CHR ''A'' c CHR ''F''"

definition unhex :: "char \<Rightarrow> nat" where
  "unhex c =
     (if between CHR ''0'' c CHR ''9'' then of_char c - 48
      else if between CHR ''a'' c CHR ''f'' then of_char c - 97 + 10
      else if between CHR ''A'' c CHR ''F'' then of_char c - 65 + 10
      else 0)"

text \<open>
  \<^verbatim>\<open>QueryUnescape\<close> first checks that every \<^verbatim>\<open>%\<close> is followed by two hexadecimal
  digits, and fails with the offending piece and the empty string otherwise; then it
  replaces every \<^verbatim>\<open>%XX\<close> by its byte and every \<^verbatim>\<open>+\<close> by a space.
\<close>

fun unescape_check :: "string \<Rightarrow> go_error option" where
  "unescape_check [] = None"
| "unescape_check (c # cs) =
     (if c = CHR ''%'' then
        (case cs of
           a # b # r \<Rightarrow>
             if ishex a \<and> ishex b then unescape_check r else Some (EscapeError (take 3 (c # cs)))
         | _ \<Rightarrow> Some (EscapeError (take 3 (c # cs))))
      else unescape_check cs)"

fun unescape_conv :: "string \<Rightarrow> string" where
  "unescape_conv [] = []"
| "unescape_conv (c # cs) =
     (if c = CHR ''%'' then
        (case cs of
           a # b # r \<Rightarrow> char_of (unhex a * 16 + unhex b) # unescape_conv r
         | _ \<Rightarrow> [])
      else if c = CHR ''+'' then CHR '' '' # unescape_conv cs
      else c # unescape_conv cs)"

definition QueryUnescape :: "string \<Rightarrow> string \<times> go_error option" where
  "QueryUnescape s =
     (case unescape_check s of
        Some e \<Rightarrow> ('''', Some e)
      | None \<Rightarrow> (unescape_conv s, None))"

text \<open>
  \<^verbatim>\<open>url.Values\<close> is a map from a key to the list of its values. It is modelled as an
  association list without repeated keys; the order of the entries stands for the
  unspecified iteration order of the map.
\<close>

type_synonym Values = "(string \<times> string list) list"

definition Values_vals :: "Values \<Rightarrow> string \<Rightarrow> string list" where
  "Values_vals v key = (case map_of v key of None \<Rightarrow> [] | Some vs \<Rightarrow> vs)"

fun Values_put :: "string \<Rightarrow> string list \<Rightarrow> Values \<Rightarrow> Values" where
  "Values_put key vs [] = [(key, vs)]"
| "Values_put key vs ((k, ws) # v) =
     (if k = key then (key, vs) # v else (k, ws) # Values_put key vs v)"

definition Values_Get :: "Values \<Rightarrow> string \<Rightarrow> string" where
  "Values_Get v key = (case Values_vals v key of [] \<Rightarrow> '''' | x # _ \<Rightarrow> x)"

definition Values_Set :: "Values \<Rightarrow> string \<Rightarrow> string \<Rightarrow> Values" where
  "Values_Set v key value = Values_put key [value] v"

definition Values_Add :: "Values \<Rightarrow> string \<Rightarrow> string \<Rightarrow> Values" where
  "Values_Add v key value = Values_put key (Values_vals v key @ [value]) v"

definition Values_Del :: "Values \<Rightarrow> string \<Rightarrow> Values" where
  "Values_Del v key = filter (\<lambda>(k, vs). k \<noteq> key) v"

text \<open>\<^verbatim>\<open>strings.Join\<close>.\<close>

fun strings_Join :: "string list \<Rightarrow> string \<Rightarrow> string" where
  "strings_Join [] sep = ''''"
| "strings_Join [x] sep = x"
| "strings_Join (x # y # r) sep = x @ sep @ strings_Join (y # r) sep"

text \<open>
  \<^verbatim>\<open>Values.Encode\<close>: the keys are sorted; every value of a key gives one
  \<^verbatim>\<open>key=value\<close> pair, both sides escaped; the pairs are joined by \<^verbatim>\<open>&\<close>.
\<close>

definition Values_Encode :: "Values \<Rightarrow> string" where
  "Values_Encode v =
     strings_Join
       (concat (map (\<lambda>k. map (\<lambda>x. QueryEscape k @ ''='' @ QueryEscape x) (Values_vals v k))
                  (sort (map fst v))))
       ''&''"

text \<open>\<^verbatim>\<open>strings.Cut\<close> at the first occurrence of a one-byte separator.\<close>

definition strings_Cut :: "string \<Rightarrow> char \<Rightarrow> string \<times> string" where
  "strings_Cut s sep = (takeWhile (\<lambda>c. c \<noteq> sep) s, drop 1 (dropWhile (\<lambda>c. c \<noteq> sep) s))"

text \<open>
  \<^verbatim>\<open>parseQuery\<close>, with its error dropped as \<^verbatim>\<open>URL.Query\<close> drops it: the query is
  cut at every \<^verbatim>\<open>&\<close>; a piece that contains a semicolon, is empty, or does not unescape
  is skipped; the others are cut at the first \<^verbatim>\<open>=\<close> and appended to the values of
  their key.
\<close>

definition parse_pair :: "string \<Rightarrow> Values \<Rightarrow> Values" where
  "parse_pair piece m =
     (if CHR '';'' \<in> set piece then m
      else if piece = '''' then m
      else (case strings_Cut piece CHR ''='' of
              (key, value) \<Rightarrow>
                (case QueryUnescape key of
                   (key, Some err1) \<Rightarrow> m
                 | (key, None) \<Rightarrow>
                     (case QueryUnescape value of
                        (value, Some err1) \<Rightarrow> m
                      | (value, None) \<Rightarrow> Values_Add m key value))))"

function parseQuery :: "Values \<Rightarrow> string \<Rightarrow> Values" where
  "parseQuery m query =
     (if query = '''' then m
      else parseQuery (parse_pair (fst (strings_Cut query CHR ''&'')) m)
             (snd (strings_Cut query CHR ''&'')))"
  by pat_completeness auto
termination
proof (relation "measure (\<lambda>(m, query). length query)")
  show "wf (measure (\<lambda>(m, query). length query))" by simp
next
  fix m :: Values and query :: string
  assume "query \<noteq> ''''"
  moreover have "length (dropWhile (\<lambda>c. c \<noteq> CHR ''&'') query) \<le> length query"
    by (rule length_dropWhile_le)
  ultimately show "((parse_pair (fst (strings_Cut query CHR ''&'')) m,
        snd (strings_Cut query CHR ''&'')), m, query) \<in> measure (\<lambda>(m, query). length query)"
    by (cases query) (auto simp: strings_Cut_def)
qed

declare parseQuery.simps [simp del]

text \<open>
  The fields of a \<^verbatim>\<open>url.URL\<close> that the functions below read or write. The other fields of
  the struct (\<^verbatim>\<open>Opaque\<close>, \<^verbatim>\<open>User\<close>, \<^verbatim>\<open>RawPath\<close>, \<^verbatim>\<open>ForceQuery\<close>, \<^verbatim>\<open>Fragment\<close>,
  \<^verbatim>\<open>RawFragment\<close> and so on) are the extension of the record: \<^verbatim>\<open>URL.Query\<close> is defined on
  every extension, and an update of \<open>Path\<close> or \<open>RawQuery\<close> leaves the extension as it is.
\<close>

record URL =
  Scheme :: string
  Host :: string
  Path :: string
  RawQuery :: string

definition URL_Query :: "'a URL_scheme \<Rightarrow> Values" where
  "URL_Query u = parseQuery [] (RawQuery u)"

section \<open>net/http: headers and request bodies\<close>

text \<open>
  A request body is a stream that can be read once. \<open>pending\<close> are the bytes it will
  still deliver and \<open>fault\<close> is the error, if any, with which it ends instead of the end
  of the input. \<^verbatim>\<open>ioutil.ReadAll\<close> drains the stream: it returns the bytes and the error,
  and leaves a stream that delivers nothing more.
\<close>

record Body =
  pending :: "byte list"
  fault :: "go_error option"

definition ioutil_ReadAll :: "Body \<Rightarrow> (byte list \<times> go_error option) \<times> Body" where
  "ioutil_ReadAll r = ((pending r, fault r), r\<lparr>pending := []\<rparr>)"

text \<open>\<^verbatim>\<open>ioutil.NopCloser(bytes.NewBuffer(b))\<close>: a fresh stream over the bytes \<open>b\<close>.\<close>

definition NopCloser_Buffer :: "byte list \<Rightarrow> Body" where
  "NopCloser_Buffer b = \<lparr>pending = b, fault = None\<rparr>"

record Request =
  Header :: "string \<Rightarrow> string list option"
  Body :: Body

text \<open>
  \<^verbatim>\<open>Header.Get\<close>: the first value stored under the key, or the empty string. The key
  used below is in canonical form already.
\<close>

definition Header_Get :: "(string \<Rightarrow> string list option) \<Rightarrow> string \<Rightarrow> string" where
  "Header_Get h key = (case h key of None \<Rightarrow> '''' | Some [] \<Rightarrow> '''' | Some (v # _) \<Rightarrow> v)"

section \<open>The application: oauth.go\<close>

definition shopifyChecksumHeader :: string where
  "shopifyChecksumHeader = ''X-Shopify-Hmac-Sha256''"

record App =
  ApiKey :: string
  ApiSecret :: string
  RedirectUrl :: string
  Scope :: string

text \<open>
  \<^verbatim>\<open>AuthorizeUrl\<close>. \<^verbatim>\<open>ShopBaseUrl\<close> is not part of this file, and \<^verbatim>\<open>url.Parse\<close> and
  \<^verbatim>\<open>URL.String\<close> are the standard library's: the three are parameters, the two of the
  library over a URL with all its fields. The error of \<^verbatim>\<open>url.Parse\<close> is dropped, so when
  parsing fails \<^verbatim>\<open>shopUrl\<close> is nil and the assignment to its path panics.
\<close>

definition AuthorizeUrl_query :: "App \<Rightarrow> 'a URL_scheme \<Rightarrow> string \<Rightarrow> Values" where
  "AuthorizeUrl_query app shopUrl state =
     (let query = URL_Query shopUrl;
          query = Values_Set query ''client_id'' (ApiKey app);
          query = Values_Set query ''redirect_uri'' (RedirectUrl app);
          query = Values_Set query ''scope'' (Scope app);
          query = Values_Set query ''state'' state
      in query)"

definition AuthorizeUrl ::
  "(string \<Rightarrow> 'a URL_scheme option) \<Rightarrow> ('a URL_scheme \<Rightarrow> string) \<Rightarrow> (string \<Rightarrow> string) \<Rightarrow>
     App \<Rightarrow> string \<Rightarrow> string \<Rightarrow> string outcome" where
  "AuthorizeUrl url_Parse url_String ShopBaseUrl app shopName state =
     (case url_Parse (ShopBaseUrl shopName) of
        None \<Rightarrow> Panics ''invalid memory address or nil pointer dereference''
      | Some shopUrl \<Rightarrow>
          (let shopUrl = shopUrl\<lparr>Path := ''/admin/oauth/authorize''\<rparr>;
               query = AuthorizeUrl_query app shopUrl state;
               shopUrl = shopUrl\<lparr>RawQuery := Values_Encode query\<rparr>
           in Returns (url_String shopUrl)))"

text \<open>
  \<^verbatim>\<open>VerifyMessage\<close>: the error of \<^verbatim>\<open>hex.DecodeString\<close> is dropped, and whatever bytes
  it returned are compared with the expected code.
\<close>

definition VerifyMessage :: "App \<Rightarrow> string \<Rightarrow> string \<Rightarrow> bool" where
  "VerifyMessage app message messageMAC =
     (let expectedMAC = hmac_sha256 (bytes_of (ApiSecret app)) (bytes_of message);
          actualMac = fst (hex_DecodeString messageMAC)
      in hmac_Equal actualMac expectedMAC)"

definition VerifyAuthorizationURL :: "App \<Rightarrow> URL \<Rightarrow> bool \<times> go_error option" where
  "VerifyAuthorizationURL app u =
     (let q = URL_Query u;
          messageMAC = Values_Get q ''hmac'';
          q = Values_Del q ''hmac'';
          q = Values_Del q ''signature''
      in case QueryUnescape (Values_Encode q) of
           (message, err) \<Rightarrow> (VerifyMessage app message messageMAC, err))"

text \<open>
  \<^verbatim>\<open>VerifyWebhookRequest\<close> returns its verdict and the request with the body it leaves
  behind.
\<close>

definition VerifyWebhookRequest :: "App \<Rightarrow> Request \<Rightarrow> bool \<times> Request" where
  "VerifyWebhookRequest app httpRequest =
     (let shopifySha256 = Header_Get (Header httpRequest) shopifyChecksumHeader;
          actualMac = bytes_of shopifySha256
      in case ioutil_ReadAll (Body httpRequest) of
           ((requestBody, _), drained) \<Rightarrow>
             (let httpRequest = httpRequest\<lparr>Body := NopCloser_Buffer requestBody\<rparr>;
                  macSum = hmac_sha256 (bytes_of (ApiSecret app)) requestBody;
                  expectedMac = bytes_of (b64_EncodeToString macSum)
              in (hmac_Equal actualMac expectedMac, httpRequest)))"

definition VerifyWebhookRequestVerbose ::
  "App \<Rightarrow> Request \<Rightarrow> (bool \<times> go_error option) \<times> Request" where
  "VerifyWebhookRequestVerbose app httpRequest =
     (if ApiSecret app = '''' then ((False, Some (ErrorString ''ApiSecret is empty'')), httpRequest)
      else
        let shopifySha256 = Header_Get (Header httpRequest) shopifyChecksumHeader in
        if shopifySha256 = '''' then
          ((False, Some (ErrorString (''header '' @ shopifyChecksumHeader @ '' not set''))),
           httpRequest)
        else
          case b64_DecodeString shopifySha256 of
            (decodedReceivedHMAC, Some err) \<Rightarrow> ((False, Some err), httpRequest)
          | (decodedReceivedHMAC, None) \<Rightarrow>
              if length decodedReceivedHMAC \<noteq> 32 then
                ((False, Some (ErrorString
                   (''received HMAC is not of length 32, it is of length '' @
                    fmt_d (length decodedReceivedHMAC)))), httpRequest)
              else
                case ioutil_ReadAll (Body httpRequest) of
                  ((requestBody, Some err), drained) \<Rightarrow>
                    ((False, Some err), httpRequest\<lparr>Body := drained\<rparr>)
                | ((requestBody, None), drained) \<Rightarrow>
                    let httpRequest = httpRequest\<lparr>Body := NopCloser_Buffer requestBody\<rparr> in
                    if length requestBody = 0 then
                      ((False, Some (ErrorString ''request body is empty'')), httpRequest)
                    else
                      let computedHMAC = hmac_sha256 (bytes_of (ApiSecret app)) requestBody;
                          HMACSame = hmac_Equal decodedReceivedHMAC computedHMAC
                      in if \<not> HMACSame then
                           ((HMACSame, Some (ErrorString
                              (''expected hash '' @ hex_EncodeToString computedHMAC @
                               '' does not equal '' @ hex_EncodeToString decodedReceivedHMAC))),
                            httpRequest)
                         else ((HMACSame, None), httpRequest))"

definition hmacSHA256 :: "byte list \<Rightarrow> byte list \<Rightarrow> byte list \<Rightarrow> bool" where
  "hmacSHA256 key body expected =
     (let result = hmac_sha256 key body;
          dst = bytes_of (hex_EncodeToString result)
      in hmac_Equal dst expected)"

text \<open>
  \<^verbatim>\<open>VerifySignature\<close>. \<open>signature_message\<close> is the loop over the map, the sort and the
  join: it builds the signed message from the values left after the signature is removed.
\<close>

definition signature_message :: "Values \<Rightarrow> string" where
  "signature_message val =
     (let keys = map (\<lambda>(k, v). k @ ''='' @ strings_Join v '','') val;
          keys = sort keys
      in strings_Join keys '''')"

definition VerifySignature :: "App \<Rightarrow> URL \<Rightarrow> bool" where
  "VerifySignature app u =
     (let val = URL_Query u;
          sig = Values_Get val ''signature'';
          val = Values_Del val ''signature'';
          joined = signature_message val
      in hmacSHA256 (bytes_of (ApiSecret app)) (bytes_of joined) (bytes_of sig))"

section \<open>The signed messages in the words of the specification\<close>

text \<open>
  Callback mode: remove exactly the keys \<^verbatim>\<open>hmac\<close> and \<^verbatim>\<open>signature\<close>, encode the remaining
  parameters as one query string in form encoding, and percent-decode the whole string once.
\<close>

definition callback_message :: "Values \<Rightarrow> string" where
  "callback_message q =
     unescape_conv (Values_Encode (filter (\<lambda>(k, vs). k \<notin> {''hmac'', ''signature''}) q))"

text \<open>
  Proxy mode: remove exactly \<^verbatim>\<open>signature\<close>; for each remaining key join its values with
  a comma and format \<^verbatim>\<open>key=value\<close>; sort these strings and concatenate them with no
  separator.
\<close>

definition proxy_message :: "Values \<Rightarrow> string" where
  "proxy_message q =
     concat (sort (map (\<lambda>(k, vs). k @ ''='' @ strings_Join vs '','')
                     (filter (\<lambda>(k, vs). k \<noteq> ''signature'') q)))"

text \<open>
  The values that hold after the parameters \<open>ps\<close> were inserted one after the other, as
  \<^verbatim>\<open>parseQuery\<close> inserts them, and the values of one key in the order of their insertion.
\<close>

definition Values_of :: "(string \<times> string) list \<Rightarrow> Values" where
  "Values_of ps = foldl (\<lambda>m (k, v). Values_Add m k v) [] ps"

definition values_in :: "string \<Rightarrow> (string \<times> string) list \<Rightarrow> string list" where
  "values_in k ps = map snd (filter (\<lambda>p. fst p = k) ps)"

text \<open>The pairs that \<^verbatim>\<open>Values.Encode\<close> writes, in the order in which it writes them.\<close>

definition Values_pairs :: "Values \<Rightarrow> (string \<times> string) list" where
  "Values_pairs v = concat (map (\<lambda>k. map (\<lambda>x. (k, x)) (Values_vals v k)) (sort (map fst v)))"

section \<open>Basic facts\<close>

subsection \<open>Bytes\<close>

lemma unat_byte_less: "unat (w::byte) < 256"
  using unsigned_less [of w, where 'a = nat] by simp

lemma unat_ucast_byte: "unat (ucast (w::byte) :: u32) = unat w"
proof -
  have "unat w < 2 ^ 32" using unat_byte_less [of w] by simp
  then show ?thesis by (simp add: unsigned_ucast_eq take_bit_nat_eq_self)
qed

lemma byte_xor_eq_0: "(x::byte) XOR y = 0 \<longleftrightarrow> x = y"
  by (metis bit.xor_left_self xor.right_neutral)

lemma string_of_bytes_of: "string_of (bytes_of s) = s"
  by (induction s) (simp_all add: string_of_def bytes_of_def unat_of_nat)

lemma bytes_of_string_of: "bytes_of (string_of b) = b"
  by (induction b) (simp_all add: string_of_def bytes_of_def unat_byte_less)

lemma bytes_of_inj: "bytes_of s = bytes_of t \<longleftrightarrow> s = t"
  by (metis string_of_bytes_of)

lemma length_bytes_of: "length (bytes_of s) = length s"
  by (simp add: bytes_of_def)

subsection \<open>The comparison of \<^verbatim>\<open>hmac.Equal\<close> is equality of byte strings\<close>

lemma ConstantTimeByteEq_iff: "ConstantTimeByteEq x y = (if x = y then 1 else 0)"
proof (cases "x = y")
  case True
  then show ?thesis by (simp add: ConstantTimeByteEq_def)
next
  case False
  let ?w = "ucast (x XOR y) :: u32"
  from False have "x XOR y \<noteq> 0" by (simp add: byte_xor_eq_0)
  then have "unat (x XOR y) \<noteq> 0" by (simp add: unat_eq_zero)
  then have "unat ?w \<noteq> 0" by (simp add: unat_ucast_byte)
  then have "?w \<noteq> 0" by (simp add: unat_eq_zero)
  then have "unat (?w - 1) = unat ?w - 1" by (rule unat_minus_one)
  then have "unat (?w - 1) < 2 ^ 31"
    using unat_byte_less [of "x XOR y"] by (simp add: unat_ucast_byte)
  then have "drop_bit 31 (?w - 1) = 0"
    by (metis div_less drop_bit_nat_def unat_drop_bit_eq unat_eq_zero)
  with False show ?thesis by (simp add: ConstantTimeByteEq_def)
qed

lemma ctc_loop_zero: "length x = length y \<Longrightarrow> ctc_loop v x y = 0 \<longleftrightarrow> v = 0 \<and> x = y"
  by (induction x y arbitrary: v rule: list_induct2) (auto simp: or_eq_0_iff byte_xor_eq_0)

lemma hmac_Equal_iff: "hmac_Equal x y \<longleftrightarrow> x = y"
  using ctc_loop_zero [of x y 0]
  by (auto simp: hmac_Equal_def ConstantTimeCompare_def ConstantTimeByteEq_iff)

lemma hmac_Equal_length: "length x \<noteq> length y \<Longrightarrow> \<not> hmac_Equal x y"
  by (auto simp: hmac_Equal_iff)

subsection \<open>The digest has 32 bytes\<close>

lemma length_regs_bytes: "length (regs_bytes r) = 32"
  by (induct r rule: regs_bytes.induct) simp

lemma length_sha256_Sum: "length (sha256_Sum m) = 32"
  by (simp add: sha256_Sum_def length_regs_bytes)

lemma length_hmac_sha256: "length (hmac_sha256 key m) = 32"
  by (simp add: hmac_sha256_def length_sha256_Sum)

subsection \<open>Hexadecimal digits\<close>

lemma fromHexChar_hextable_all:
  "list_all (\<lambda>k. fromHexChar (hextable ! k) = Some (of_nat k)) [0..<16]"
  by (simp add: upt_rec fromHexChar_def hextable_def between_def)

lemma fromHexChar_hextable: "n < 16 \<Longrightarrow> fromHexChar (hextable ! n) = Some (of_nat n)"
  using fromHexChar_hextable_all by (simp add: list_all_iff)

lemma unat_hi_nibble: "unat (drop_bit 4 (v::byte)) < 16"
  using unat_byte_less [of v] by (simp add: unat_drop_bit_eq drop_bit_nat_def)

lemma and_15: "(v::byte) AND 0x0f = take_bit 4 v"
  by (simp add: take_bit_eq_mask mask_eq_exp_minus_1)

lemma unat_lo_nibble: "unat ((v::byte) AND 0x0f) < 16"
  using take_bit_nat_less_exp [of 4 "unat v"] by (simp add: and_15 unsigned_take_bit_eq)

lemma nibbles_join: "push_bit 4 (drop_bit 4 v) OR (v AND 0x0f) = (v::byte)"
  unfolding and_15 by (rule bit_word_eqI) (auto simp: bit_simps)

text \<open>
  Decoding the digits of a byte string followed by anything gives the byte string back,
  followed by what decoding the rest gives.
\<close>

lemma hex_decode_encode_append:
  "hex_DecodeString (hex_EncodeToString bs @ r) =
     (case hex_DecodeString r of (cs, e) \<Rightarrow> (bs @ cs, e))"
proof (induction bs)
  case Nil
  then show ?case by (simp add: hex_EncodeToString_def)
next
  case (Cons v bs)
  have "hex_EncodeToString (v # bs) @ r =
      hextable ! unat (drop_bit 4 v) # hextable ! unat (v AND 0x0f) # (hex_EncodeToString bs @ r)"
    by (simp add: hex_EncodeToString_def)
  then show ?case
    using Cons.IH
    by (simp add: fromHexChar_hextable unat_hi_nibble unat_lo_nibble nibbles_join split: prod.splits)
qed

lemma hex_decode_encode: "hex_DecodeString (hex_EncodeToString bs) = (bs, None)"
  using hex_decode_encode_append [of bs "[]"] by simp

subsection \<open>Evaluating the digest\<close>

lemma rotr_eval: "n \<le> 32 \<Longrightarrow> rotr n x = drop_bit n x OR push_bit (32 - n) (take_bit n x)"
  unfolding rotr_def by (rule bit_word_eqI) (auto simp: bit_simps)

lemma replicate_numeral: "replicate (numeral k) x = x # replicate (pred_numeral k) x"
  by (simp add: numeral_eq_Suc)

lemmas sha256_eval = bytes_of_def sha256_pad_def be64_def sha256_init_def sha256_K_def rotr_eval
  Let_def replicate_numeral schedule.simps sha256_blocks.simps sha256_Sum_def hmac_sha256_def
  hmac_key_def hmac_pad_def wnext_def sha256_block_def upt_rec

lemma hmac_sha256_example:
  "hmac_sha256 (bytes_of ''hush'') (bytes_of ''shop=acme.myshopify.com'') =
     [6, 227, 170, 57, 60, 201, 252, 251, 107, 11, 234, 105, 119, 220, 4, 106, 203, 201, 86, 216,
      188, 91, 184, 119, 238, 150, 145, 175, 46, 45, 189, 217]"
  by (simp add: sha256_eval)

lemma hex_example:
  "hex_DecodeString ''06e3aa393cc9fcfb6b0bea6977dc046acbc956d8bc5bb877ee9691af2e2dbdd9zz'' =
    ([6, 227, 170, 57, 60, 201, 252, 251, 107, 11, 234, 105, 119, 220, 4, 106, 203, 201, 86, 216,
      188, 91, 184, 119, 238, 150, 145, 175, 46, 45, 189, 217], Some (InvalidByteError CHR ''z''))"
  by (simp add: fromHexChar_def between_def)

section \<open>VerifyMessage and signatures that do not decode\<close>

text \<open>
  Whatever follows the hexadecimal digits of the expected code, and does not itself start
  with two more digits, is ignored: the signature is accepted although decoding it fails.
\<close>

lemma VerifyMessage_prefix:
  "fst (hex_DecodeString r) = [] \<Longrightarrow>
   VerifyMessage app message
     (hex_EncodeToString (hmac_sha256 (bytes_of (ApiSecret app)) (bytes_of message)) @ r)"
  by (cases "hex_DecodeString r") (simp add: VerifyMessage_def hex_decode_encode_append hmac_Equal_iff)

text \<open>
  C1. A signature whose decoding fails is to be rejected, with no match against the
  bytes decoded before the failure. For the secret \<^verbatim>\<open>hush\<close> and the message
  \<^verbatim>\<open>shop=acme.myshopify.com\<close>, the signature made of the 64 digits of the right code and
  the two characters \<^verbatim>\<open>zz\<close> does not decode (\<^verbatim>\<open>z\<close> is an invalid byte), and
  \<^verbatim>\<open>VerifyMessage\<close> returns true on it.
\<close>

theorem VerifyMessage_accepts_trailing_garbage:
  "snd (hex_DecodeString ''06e3aa393cc9fcfb6b0bea6977dc046acbc956d8bc5bb877ee9691af2e2dbdd9zz'')
     = Some (InvalidByteError CHR ''z'') \<and>
   VerifyMessage \<lparr>ApiKey = ''k1'', ApiSecret = ''hush'', RedirectUrl = '''', Scope = ''''\<rparr>
     ''shop=acme.myshopify.com''
     ''06e3aa393cc9fcfb6b0bea6977dc046acbc956d8bc5bb877ee9691af2e2dbdd9zz'' = True"
  by (simp only: VerifyMessage_def hex_example hmac_sha256_example hmac_Equal_iff Let_def
      App.select_convs fst_conv snd_conv simp_thms)

section \<open>Webhook requests\<close>

lemmas b64_eval = b64_DecodeString_def decodeMap_def encodeStd_def upt_rec quantum_bytes_def
  after_padding_def is_newline_def

lemma VerifyWebhookRequest_result:
  "fst (VerifyWebhookRequest app req) \<longleftrightarrow>
     Header_Get (Header req) shopifyChecksumHeader =
       b64_EncodeToString (hmac_sha256 (bytes_of (ApiSecret app)) (pending (Body req)))"
  by (simp add: VerifyWebhookRequest_def ioutil_ReadAll_def hmac_Equal_iff bytes_of_inj Let_def)

lemma VerifyWebhookRequest_body:
  "snd (VerifyWebhookRequest app req) = req\<lparr>Body := NopCloser_Buffer (pending (Body req))\<rparr>"
  by (simp add: VerifyWebhookRequest_def ioutil_ReadAll_def Let_def)

lemma b64_zero32:
  "b64_DecodeString ''AAAAAAAAAAAAAAAAAAAAAAAAAAAAAAAAAAAAAAAAAAA='' = (replicate 32 0, None)"
  by (simp add: b64_eval replicate_numeral)

lemma b64_zero31:
  "b64_DecodeString ''AAAAAAAAAAAAAAAAAAAAAAAAAAAAAAAAAAAAAAAAAA=='' = (replicate 31 0, None)"
  by (simp add: b64_eval replicate_numeral)

lemma b64_bang: "b64_DecodeString ''!!!!'' = ([], Some (CorruptInputError 0))"
  by (simp add: b64_eval)

lemma fmt_d_31: "fmt_d 31 = ''31''"
  by (simp add: fmt_d.simps digits_def)

lemma Verbose_cases:
  "fst (VerifyWebhookRequestVerbose app req) =
     (if ApiSecret app = '''' then (False, Some (ErrorString ''ApiSecret is empty''))
      else if Header_Get (Header req) shopifyChecksumHeader = '''' then
        (False, Some (ErrorString ''header X-Shopify-Hmac-Sha256 not set''))
      else case b64_DecodeString (Header_Get (Header req) shopifyChecksumHeader) of
          (bs, Some e) \<Rightarrow> (False, Some e)
        | (bs, None) \<Rightarrow>
            if length bs \<noteq> 32 then
              (False, Some (ErrorString (''received HMAC is not of length 32, it is of length '' @ fmt_d (length bs))))
            else case fault (Body req) of
                Some e \<Rightarrow> (False, Some e)
              | None \<Rightarrow>
                  if pending (Body req) = [] then (False, Some (ErrorString ''request body is empty''))
                  else if bs \<noteq> hmac_sha256 (bytes_of (ApiSecret app)) (pending (Body req)) then
                    (False, Some (ErrorString (''expected hash '' @
                       hex_EncodeToString (hmac_sha256 (bytes_of (ApiSecret app)) (pending (Body req))) @
                       '' does not equal '' @ hex_EncodeToString bs)))
                  else (True, None))"
  by (auto simp add: VerifyWebhookRequestVerbose_def ioutil_ReadAll_def hmac_Equal_iff Let_def
      shopifyChecksumHeader_def split: prod.splits option.splits)

lemma Verbose_body:
  "Body (snd (VerifyWebhookRequestVerbose app req)) =
     (if ApiSecret app = '''' \<or> Header_Get (Header req) shopifyChecksumHeader = '''' then Body req
      else case b64_DecodeString (Header_Get (Header req) shopifyChecksumHeader) of
          (bs, Some e) \<Rightarrow> Body req
        | (bs, None) \<Rightarrow>
            if length bs \<noteq> 32 then Body req
            else case fault (Body req) of
                Some e \<Rightarrow> (Body req)\<lparr>pending := []\<rparr>
              | None \<Rightarrow> NopCloser_Buffer (pending (Body req)))"
  by (auto simp add: VerifyWebhookRequestVerbose_def ioutil_ReadAll_def Let_def
      split: prod.splits option.splits)

text \<open>
  C2. After a call to either webhook verifier, on every exit path, the body of the request
  is to be readable and to deliver the original bytes. Here the body delivers the bytes
  \<^verbatim>\<open>id=1\<close> and then fails. \<^verbatim>\<open>VerifyWebhookRequestVerbose\<close> returns the read error before
  it replaces the body: what it leaves behind delivers no byte. \<^verbatim>\<open>VerifyWebhookRequest\<close>
  on the same request does replace the body, and the bytes can be read again.
\<close>

theorem VerifyWebhookRequestVerbose_read_error_loses_body:
  "fst (VerifyWebhookRequestVerbose
          \<lparr>ApiKey = ''k1'', ApiSecret = ''hush'', RedirectUrl = '''', Scope = ''''\<rparr>
          \<lparr>Header = [''X-Shopify-Hmac-Sha256'' \<mapsto> [''AAAAAAAAAAAAAAAAAAAAAAAAAAAAAAAAAAAAAAAAAAA='']],
           Body = \<lparr>pending = bytes_of ''id=1'', fault = Some (ReadError ''unexpected EOF'')\<rparr>\<rparr>)
     = (False, Some (ReadError ''unexpected EOF'')) \<and>
   fst (fst (ioutil_ReadAll (Body (snd (VerifyWebhookRequestVerbose
          \<lparr>ApiKey = ''k1'', ApiSecret = ''hush'', RedirectUrl = '''', Scope = ''''\<rparr>
          \<lparr>Header = [''X-Shopify-Hmac-Sha256'' \<mapsto> [''AAAAAAAAAAAAAAAAAAAAAAAAAAAAAAAAAAAAAAAAAAA='']],
           Body = \<lparr>pending = bytes_of ''id=1'', fault = Some (ReadError ''unexpected EOF'')\<rparr>\<rparr>)))))
     = [] \<and>
   fst (fst (ioutil_ReadAll (Body (snd (VerifyWebhookRequest
          \<lparr>ApiKey = ''k1'', ApiSecret = ''hush'', RedirectUrl = '''', Scope = ''''\<rparr>
          \<lparr>Header = [''X-Shopify-Hmac-Sha256'' \<mapsto> [''AAAAAAAAAAAAAAAAAAAAAAAAAAAAAAAAAAAAAAAAAAA='']],
           Body = \<lparr>pending = bytes_of ''id=1'', fault = Some (ReadError ''unexpected EOF'')\<rparr>\<rparr>)))))
     = bytes_of ''id=1''"
  by (simp add: Verbose_cases Verbose_body VerifyWebhookRequest_body Header_Get_def
      shopifyChecksumHeader_def b64_zero32 ioutil_ReadAll_def NopCloser_Buffer_def)

lemma b64_example:
  "b64_DecodeString ''BuOqOTzJ/PtrC+ppd9wEasvJVti8W7h37paRry4tvdk='' =
     ([6, 227, 170, 57, 60, 201, 252, 251, 107, 11, 234, 105, 119, 220, 4, 106, 203, 201, 86, 216,
       188, 91, 184, 119, 238, 150, 145, 175, 46, 45, 189, 217], None)"
  by (simp add: b64_eval)

text \<open>
  A header that is no base64 text at all: the error is the decoder's, which names the
  offset of the offending input byte and no length. It is not the error that reports
  the length of what was decoded (no byte was).
\<close>

theorem VerifyWebhookRequestVerbose_undecodable_header:
  "b64_DecodeString ''!!!!'' = ([], Some (CorruptInputError 0)) \<and>
   fst (VerifyWebhookRequestVerbose
          \<lparr>ApiKey = ''k1'', ApiSecret = ''hush'', RedirectUrl = '''', Scope = ''''\<rparr>
          \<lparr>Header = [''X-Shopify-Hmac-Sha256'' \<mapsto> [''!!!!'']],
           Body = \<lparr>pending = bytes_of ''id=1'', fault = None\<rparr>\<rparr>)
     = (False, Some (CorruptInputError 0)) \<and>
   fst (VerifyWebhookRequestVerbose
          \<lparr>ApiKey = ''k1'', ApiSecret = ''hush'', RedirectUrl = '''', Scope = ''''\<rparr>
          \<lparr>Header = [''X-Shopify-Hmac-Sha256'' \<mapsto> [''!!!!'']],
           Body = \<lparr>pending = bytes_of ''id=1'', fault = None\<rparr>\<rparr>)
     \<noteq> (False, Some (ErrorString
            (''received HMAC is not of length 32, it is of length '' @ fmt_d (length ([] :: byte list)))))"
  by (simp add: Verbose_cases Header_Get_def shopifyChecksumHeader_def b64_bang)

text \<open>
  C3. \<^verbatim>\<open>VerifyWebhookRequestVerbose\<close> checks its preconditions in order and reports the
  first that fails: an empty secret; a header that is missing or empty; a header that does
  not decode, with the decoder's own error; a header that decodes to a number of bytes
  other than 32, with that number; a body that cannot be read, with the reader's error; an
  empty body; and at last a digest of 32 bytes that differs from the computed one, with
  both digests in hexadecimal. Only when all checks pass is the result true, with no error.
\<close>

theorem VerifyWebhookRequestVerbose_checks_in_order:
  "(ApiSecret app = '''' \<longrightarrow>
      fst (VerifyWebhookRequestVerbose app req) = (False, Some (ErrorString ''ApiSecret is empty''))) \<and>
   (ApiSecret app \<noteq> '''' \<and> Header_Get (Header req) shopifyChecksumHeader = '''' \<longrightarrow>
      fst (VerifyWebhookRequestVerbose app req) =
        (False, Some (ErrorString ''header X-Shopify-Hmac-Sha256 not set''))) \<and>
   (ApiSecret app \<noteq> '''' \<and> Header_Get (Header req) shopifyChecksumHeader \<noteq> '''' \<and>
    b64_DecodeString (Header_Get (Header req) shopifyChecksumHeader) = (bs, Some e) \<longrightarrow>
      fst (VerifyWebhookRequestVerbose app req) = (False, Some e)) \<and>
   (ApiSecret app \<noteq> '''' \<and> Header_Get (Header req) shopifyChecksumHeader \<noteq> '''' \<and>
    b64_DecodeString (Header_Get (Header req) shopifyChecksumHeader) = (bs, None) \<and>
    length bs \<noteq> 32 \<longrightarrow>
      fst (VerifyWebhookRequestVerbose app req) =
        (False, Some (ErrorString
           (''received HMAC is not of length 32, it is of length '' @ fmt_d (length bs))))) \<and>
   (ApiSecret app \<noteq> '''' \<and> Header_Get (Header req) shopifyChecksumHeader \<noteq> '''' \<and>
    b64_DecodeString (Header_Get (Header req) shopifyChecksumHeader) = (bs, None) \<and>
    length bs = 32 \<and> fault (Body req) = Some e \<longrightarrow>
      fst (VerifyWebhookRequestVerbose app req) = (False, Some e)) \<and>
   (ApiSecret app \<noteq> '''' \<and> Header_Get (Header req) shopifyChecksumHeader \<noteq> '''' \<and>
    b64_DecodeString (Header_Get (Header req) shopifyChecksumHeader) = (bs, None) \<and>
    length bs = 32 \<and> fault (Body req) = None \<and> pending (Body req) = [] \<longrightarrow>
      fst (VerifyWebhookRequestVerbose app req) =
        (False, Some (ErrorString ''request body is empty''))) \<and>
   (ApiSecret app \<noteq> '''' \<and> Header_Get (Header req) shopifyChecksumHeader \<noteq> '''' \<and>
    b64_DecodeString (Header_Get (Header req) shopifyChecksumHeader) = (bs, None) \<and>
    length bs = 32 \<and> fault (Body req) = None \<and> pending (Body req) \<noteq> [] \<and>
    bs \<noteq> hmac_sha256 (bytes_of (ApiSecret app)) (pending (Body req)) \<longrightarrow>
      fst (VerifyWebhookRequestVerbose app req) =
        (False, Some (ErrorString
           (''expected hash '' @
            hex_EncodeToString (hmac_sha256 (bytes_of (ApiSecret app)) (pending (Body req))) @
            '' does not equal '' @ hex_EncodeToString bs)))) \<and>
   (ApiSecret app \<noteq> '''' \<and> Header_Get (Header req) shopifyChecksumHeader \<noteq> '''' \<and>
    b64_DecodeString (Header_Get (Header req) shopifyChecksumHeader) = (bs, None) \<and>
    fault (Body req) = None \<and> pending (Body req) \<noteq> [] \<and>
    bs = hmac_sha256 (bytes_of (ApiSecret app)) (pending (Body req)) \<longrightarrow>
      fst (VerifyWebhookRequestVerbose app req) = (True, None))"
  by (simp add: Verbose_cases length_hmac_sha256)

text \<open>
  A header that decodes to 31 bytes gives the error about the length, not the one about a
  mismatch; a request with the right digest passes every check.
\<close>

theorem VerifyWebhookRequestVerbose_checks_in_order_witness:
  "fst (VerifyWebhookRequestVerbose
          \<lparr>ApiKey = ''k1'', ApiSecret = ''hush'', RedirectUrl = '''', Scope = ''''\<rparr>
          \<lparr>Header = [''X-Shopify-Hmac-Sha256'' \<mapsto> [''AAAAAAAAAAAAAAAAAAAAAAAAAAAAAAAAAAAAAAAAAA=='']],
           Body = \<lparr>pending = bytes_of ''id=1'', fault = None\<rparr>\<rparr>)
     = (False, Some (ErrorString ''received HMAC is not of length 32, it is of length 31'')) \<and>
   fst (VerifyWebhookRequestVerbose
          \<lparr>ApiKey = ''k1'', ApiSecret = ''hush'', RedirectUrl = '''', Scope = ''''\<rparr>
          \<lparr>Header = [''X-Shopify-Hmac-Sha256'' \<mapsto> [''BuOqOTzJ/PtrC+ppd9wEasvJVti8W7h37paRry4tvdk='']],
           Body = \<lparr>pending = bytes_of ''shop=acme.myshopify.com'', fault = None\<rparr>\<rparr>)
     = (True, None)"
proof -
  let ?app = "\<lparr>ApiKey = ''k1'', ApiSecret = ''hush'', RedirectUrl = '''', Scope = ''''\<rparr>"
  let ?r1 = "\<lparr>Header = [''X-Shopify-Hmac-Sha256'' \<mapsto> [''AAAAAAAAAAAAAAAAAAAAAAAAAAAAAAAAAAAAAAAAAA=='']],
           Body = \<lparr>pending = bytes_of ''id=1'', fault = None\<rparr>\<rparr>"
  let ?r2 = "\<lparr>Header = [''X-Shopify-Hmac-Sha256'' \<mapsto> [''BuOqOTzJ/PtrC+ppd9wEasvJVti8W7h37paRry4tvdk='']],
           Body = \<lparr>pending = bytes_of ''shop=acme.myshopify.com'', fault = None\<rparr>\<rparr>"
  have h1: "Header_Get [''X-Shopify-Hmac-Sha256'' \<mapsto> [''AAAAAAAAAAAAAAAAAAAAAAAAAAAAAAAAAAAAAAAAAA=='']] shopifyChecksumHeader = ''AAAAAAAAAAAAAAAAAAAAAAAAAAAAAAAAAAAAAAAAAA==''"
    by (simp add: Header_Get_def shopifyChecksumHeader_def)
  have h2: "Header_Get [''X-Shopify-Hmac-Sha256'' \<mapsto> [''BuOqOTzJ/PtrC+ppd9wEasvJVti8W7h37paRry4tvdk='']] shopifyChecksumHeader = ''BuOqOTzJ/PtrC+ppd9wEasvJVti8W7h37paRry4tvdk=''"
    by (simp add: Header_Get_def shopifyChecksumHeader_def)
  have ne: "bytes_of ''shop=acme.myshopify.com'' \<noteq> []" "bytes_of ''id=1'' \<noteq> []"
    by (simp_all add: bytes_of_def)
  have "fst (VerifyWebhookRequestVerbose ?app ?r1) =
      (False, Some (ErrorString ''received HMAC is not of length 32, it is of length 31''))"
    using VerifyWebhookRequestVerbose_checks_in_order [of ?app ?r1 "replicate 31 0" "CorruptInputError 0"]
    by (simp add: h1 b64_zero31 fmt_d_31)
  moreover have "fst (VerifyWebhookRequestVerbose ?app ?r2) = (True, None)"
    using VerifyWebhookRequestVerbose_checks_in_order
      [of ?app ?r2 "hmac_sha256 (bytes_of ''hush'') (bytes_of ''shop=acme.myshopify.com'')" "CorruptInputError 0"]
    by (simp add: h2 b64_example hmac_sha256_example ne)
  ultimately show ?thesis by simp
qed

text \<open>
  C10. \<^verbatim>\<open>VerifyWebhookRequest\<close> enforces none of the preconditions of the verbose variant:
  for every request its verdict is just whether the first value of the header (the empty
  string when there is none) equals the base64 text of the code computed from the secret,
  empty or not, over the bytes read from the body, empty or not. So a request with an empty
  body whose header is the code of the empty body is accepted, while the verbose variant
  reports an error for it.
\<close>

theorem VerifyWebhookRequest_no_preconditions:
  "(fst (VerifyWebhookRequest app req) \<longleftrightarrow>
      Header_Get (Header req) shopifyChecksumHeader =
        b64_EncodeToString (hmac_sha256 (bytes_of (ApiSecret app)) (pending (Body req)))) \<and>
   (pending (Body req) = [] \<and> fault (Body req) = None \<and>
    Header_Get (Header req) shopifyChecksumHeader =
      b64_EncodeToString (hmac_sha256 (bytes_of (ApiSecret app)) []) \<longrightarrow>
      fst (VerifyWebhookRequest app req) \<and>
      \<not> fst (fst (VerifyWebhookRequestVerbose app req)) \<and>
      snd (fst (VerifyWebhookRequestVerbose app req)) \<noteq> None)"
  by (auto simp add: VerifyWebhookRequest_result Verbose_cases split: prod.splits option.splits)

section \<open>Query canonicalization\<close>

subsection \<open>Escaping and unescaping\<close>

lemma upperhex_all:
  "list_all (\<lambda>k. ishex (upperhex ! k) \<and> unhex (upperhex ! k) = k) [0..<16]"
  by (simp add: upt_rec ishex_def unhex_def upperhex_def between_def)

lemma upperhex_digit: "n < 16 \<Longrightarrow> ishex (upperhex ! n) \<and> unhex (upperhex ! n) = n"
  using upperhex_all by (simp add: list_all_iff)

lemma of_char_div_16: "of_char c div 16 < (16::nat)"
  using nat_of_char_less_256 [of c] by arith

lemma not_shouldEscape_plain: "\<not> shouldEscape c \<Longrightarrow> c \<noteq> CHR ''%'' \<and> c \<noteq> CHR ''+''"
  by (auto simp: shouldEscape_def between_def)

lemma char_of_hex_digits:
  "char_of (unhex (upperhex ! (of_char c div 16)) * 16 + unhex (upperhex ! (of_char c mod 16))) = c"
proof -
  have "unhex (upperhex ! (of_char c div 16)) = of_char c div 16"
    using upperhex_digit [OF of_char_div_16 [of c]] by simp
  moreover have "unhex (upperhex ! (of_char c mod 16)) = of_char c mod 16"
    using upperhex_digit [of "of_char c mod 16"] by simp
  ultimately show ?thesis by simp
qed

lemma unescape_check_escape_char: "unescape_check (escape_char c @ r) = unescape_check r"
  using upperhex_digit [OF of_char_div_16 [of c]] upperhex_digit [of "of_char c mod 16"]
  by (auto simp: escape_char_def dest: not_shouldEscape_plain)

lemma unescape_conv_escape_char: "unescape_conv (escape_char c @ r) = c # unescape_conv r"
  using char_of_hex_digits [of c]
  by (auto simp: escape_char_def dest: not_shouldEscape_plain)

lemma unescape_check_QueryEscape: "unescape_check (QueryEscape s @ r) = unescape_check r"
  by (induction s) (simp_all add: QueryEscape_def unescape_check_escape_char)

lemma unescape_conv_QueryEscape: "unescape_conv (QueryEscape s @ r) = s @ unescape_conv r"
  by (induction s) (simp_all add: QueryEscape_def unescape_conv_escape_char)

text \<open>The pairs of a form-encoded query, and what unescaping the whole query gives.\<close>

lemma unescape_check_pairs:
  "unescape_check (strings_Join (map (\<lambda>(k, x). QueryEscape k @ ''='' @ QueryEscape x) ps) ''&'') = None"
proof (induction ps rule: induct_list012)
  case 1
  then show ?case by simp
next
  case (2 p)
  obtain k x where "p = (k, x)" by (cases p)
  then show ?case
    using unescape_check_QueryEscape [of k "''='' @ QueryEscape x"]
      unescape_check_QueryEscape [of x "[]"]
    by simp
next
  case (3 p p' ps)
  obtain k x where p: "p = (k, x)" by (cases p)
  have "unescape_check (QueryEscape k @ ''='' @ QueryEscape x @ ''&'' @ r) = unescape_check r" for r
    using unescape_check_QueryEscape [of k "''='' @ QueryEscape x @ ''&'' @ r"]
      unescape_check_QueryEscape [of x "''&'' @ r"]
    by simp
  with 3 p show ?case by simp
qed

lemma unescape_conv_pairs:
  "unescape_conv (strings_Join (map (\<lambda>(k, x). QueryEscape k @ ''='' @ QueryEscape x) ps) ''&'') =
     strings_Join (map (\<lambda>(k, x). k @ ''='' @ x) ps) ''&''"
proof (induction ps rule: induct_list012)
  case 1
  then show ?case by simp
next
  case (2 p)
  obtain k x where "p = (k, x)" by (cases p)
  then show ?case
    using unescape_conv_QueryEscape [of k "''='' @ QueryEscape x"]
      unescape_conv_QueryEscape [of x "[]"]
    by simp
next
  case (3 p p' ps)
  obtain k x where p: "p = (k, x)" by (cases p)
  have "unescape_conv (QueryEscape k @ ''='' @ QueryEscape x @ ''&'' @ r) =
      k @ ''='' @ x @ ''&'' @ unescape_conv r" for r
    using unescape_conv_QueryEscape [of k "''='' @ QueryEscape x @ ''&'' @ r"]
      unescape_conv_QueryEscape [of x "''&'' @ r"]
    by simp
  with 3 p show ?case by simp
qed

lemma Values_Encode_pairs:
  "Values_Encode v =
     strings_Join (map (\<lambda>(k, x). QueryEscape k @ ''='' @ QueryEscape x) (Values_pairs v)) ''&''"
  by (simp add: Values_Encode_def Values_pairs_def map_concat comp_def)

lemma QueryUnescape_Values_Encode:
  "QueryUnescape (Values_Encode v) =
     (strings_Join (map (\<lambda>(k, x). k @ ''='' @ x) (Values_pairs v)) ''&'', None)"
  by (simp only: QueryUnescape_def Values_Encode_pairs unescape_check_pairs unescape_conv_pairs
      option.case)

lemma Values_Del_Del:
  "Values_Del (Values_Del q ''hmac'') ''signature'' =
     filter (\<lambda>(k, vs). k \<notin> {''hmac'', ''signature''}) q"
  by (induction q) (auto simp: Values_Del_def)

text \<open>
  What \<^verbatim>\<open>VerifyAuthorizationURL\<close> computes. The message is the one that the specification
  describes: the parameters without \<^verbatim>\<open>hmac\<close> and \<^verbatim>\<open>signature\<close>, form-encoded and then
  percent-decoded as a whole. Decoding what was just encoded cannot fail, so the error
  returned is always nil. The verdict compares the code of that message with the bytes
  that \<^verbatim>\<open>hex.DecodeString\<close> returns for the \<^verbatim>\<open>hmac\<close> parameter, whether or not the
  parameter decodes.
\<close>

lemma VerifyAuthorizationURL_computes:
  "VerifyAuthorizationURL app u =
     (fst (hex_DecodeString (Values_Get (URL_Query u) ''hmac'')) =
        hmac_sha256 (bytes_of (ApiSecret app)) (bytes_of (callback_message (URL_Query u))), None)"
proof -
  have "QueryUnescape (Values_Encode v) = (unescape_conv (Values_Encode v), None)" for v
    by (simp only: QueryUnescape_def Values_Encode_pairs unescape_check_pairs option.case)
  then show ?thesis
    by (simp add: VerifyAuthorizationURL_def Let_def Values_Del_Del callback_message_def
        VerifyMessage_def hmac_Equal_iff)
qed

lemma strings_Join_empty: "strings_Join xs '''' = concat xs"
  by (induction xs rule: induct_list012) simp_all

text \<open>
  C6. \<^verbatim>\<open>VerifySignature\<close> returns true exactly when the \<^verbatim>\<open>signature\<close> parameter is the
  lower-case hexadecimal text of the code of the message that the specification describes:
  the parameters without \<^verbatim>\<open>signature\<close>, each as \<^verbatim>\<open>key=value\<close> with its values joined by
  commas, sorted and concatenated with no separator.
\<close>

theorem VerifySignature_message:
  "VerifySignature app u \<longleftrightarrow>
     Values_Get (URL_Query u) ''signature'' =
       hex_EncodeToString (hmac_sha256 (bytes_of (ApiSecret app)) (bytes_of (proxy_message (URL_Query u))))"
  by (auto simp add: VerifySignature_def hmacSHA256_def Let_def hmac_Equal_iff bytes_of_inj
      signature_message_def strings_Join_empty proxy_message_def Values_Del_def)

subsection \<open>Query values as a map\<close>

lemma fst_Values_put:
  "map fst (Values_put k vs q) =
     (if k \<in> set (map fst q) then map fst q else map fst q @ [k])"
  by (induction q) (force simp: rev_image_eqI)+

lemma map_of_Values_put: "map_of (Values_put k vs q) = (map_of q)(k \<mapsto> vs)"
  by (induction q) auto

lemma distinct_Values_put: "distinct (map fst q) \<Longrightarrow> distinct (map fst (Values_put k vs q))"
  by (simp add: fst_Values_put)

lemma Values_vals_put:
  "Values_vals (Values_put k vs q) k' = (if k' = k then vs else Values_vals q k')"
  by (simp add: Values_vals_def map_of_Values_put)

lemma Values_vals_None: "k \<notin> fst ` set q \<Longrightarrow> Values_vals q k = []"
  by (simp add: Values_vals_def map_of_eq_None_iff [THEN iffD2])

lemma values_in_Cons:
  "values_in k (p # ps) = (if fst p = k then snd p # values_in k ps else values_in k ps)"
  by (simp add: values_in_def)

lemma foldl_Add:
  "distinct (map fst m) \<Longrightarrow>
     distinct (map fst (foldl (\<lambda>m (k, v). Values_Add m k v) m ps)) \<and>
     fst ` set (foldl (\<lambda>m (k, v). Values_Add m k v) m ps) = fst ` set m \<union> fst ` set ps \<and>
     (\<forall>k. Values_vals (foldl (\<lambda>m (k, v). Values_Add m k v) m ps) k =
            Values_vals m k @ values_in k ps)"
proof (induction ps arbitrary: m)
  case Nil
  then show ?case by (simp add: values_in_def)
next
  case (Cons p ps)
  obtain k v where p: "p = (k, v)" by (cases p)
  let ?m = "Values_Add m k v"
  have d: "distinct (map fst ?m)"
    using Cons.prems by (simp add: Values_Add_def distinct_Values_put)
  have "set (map fst ?m) = insert k (set (map fst m))"
    unfolding Values_Add_def fst_Values_put by auto
  then have keys: "fst ` set ?m = insert k (fst ` set m)" by simp
  have vals: "Values_vals ?m k' = (if k' = k then Values_vals m k @ [v] else Values_vals m k')" for k'
    by (simp add: Values_Add_def Values_vals_put)
  from Cons.IH [OF d] show ?case
    by (auto simp: p keys vals values_in_Cons)
qed

lemma Values_of_props:
  "distinct (map fst (Values_of ps))"
  "fst ` set (Values_of ps) = fst ` set ps"
  "Values_vals (Values_of ps) k = values_in k ps"
  using foldl_Add [of "[]" ps] by (simp_all add: Values_of_def Values_vals_def)

lemma map_of_Values_vals:
  "map_of q k = (if k \<in> fst ` set q then Some (Values_vals q k) else None)"
  by (auto simp: Values_vals_def map_of_eq_None_iff split: option.splits)

lemma values_in_empty_iff: "values_in k ps = [] \<longleftrightarrow> k \<notin> fst ` set ps"
  by (induction ps) (auto simp: values_in_Cons values_in_def)

lemma Values_of_same_map:
  assumes "\<forall>k. values_in k ps1 = values_in k ps2"
  shows "map_of (Values_of ps1) = map_of (Values_of ps2)"
proof
  fix k
  have "k \<in> fst ` set ps1 \<longleftrightarrow> k \<in> fst ` set ps2"
    using assms values_in_empty_iff by metis
  then show "map_of (Values_of ps1) k = map_of (Values_of ps2) k"
    using assms by (simp add: map_of_Values_vals Values_of_props)
qed

subsection \<open>What depends on the map only, not on the order of its entries\<close>

lemma sort_cong_mset: "mset xs = mset ys \<Longrightarrow> sort xs = sort ys"
  by (rule properties_for_sort) simp_all

lemma same_map_mset:
  assumes "distinct (map fst q)" "distinct (map fst q')" "map_of q = map_of q'"
  shows "mset q = mset q'"
proof -
  have "set q = set q'" using assms by (simp add: map_of_inject_set)
  moreover have "distinct q" "distinct q'" using assms(1,2) by (simp_all add: distinct_map)
  ultimately show ?thesis by (simp add: set_eq_iff_mset_eq_distinct)
qed

lemma Values_Del_same_map:
  assumes "distinct (map fst q)" "distinct (map fst q')" "map_of q = map_of q'"
  shows "distinct (map fst (Values_Del q k))" "distinct (map fst (Values_Del q' k))"
    "map_of (Values_Del q k) = map_of (Values_Del q' k)"
proof -
  show d: "distinct (map fst (Values_Del q k))" "distinct (map fst (Values_Del q' k))"
    using assms(1,2) by (simp_all add: Values_Del_def distinct_map_filter)
  have "set q = set q'" using assms by (simp add: map_of_inject_set)
  then have "set (Values_Del q k) = set (Values_Del q' k)" by (simp add: Values_Del_def)
  with d show "map_of (Values_Del q k) = map_of (Values_Del q' k)"
    by (simp add: map_of_inject_set)
qed

lemma Values_Get_same_map: "map_of q = map_of q' \<Longrightarrow> Values_Get q k = Values_Get q' k"
  by (simp add: Values_Get_def Values_vals_def)

lemma Values_Encode_same_map:
  assumes "distinct (map fst q)" "distinct (map fst q')" "map_of q = map_of q'"
  shows "Values_Encode q = Values_Encode q'"
proof -
  have "mset (map fst q) = mset (map fst q')"
    using same_map_mset [OF assms] by simp
  then have "sort (map fst q) = sort (map fst q')" by (rule sort_cong_mset)
  moreover have "Values_vals q = Values_vals q'"
    using assms(3) by (simp add: Values_vals_def fun_eq_iff)
  ultimately show ?thesis by (simp add: Values_Encode_def)
qed

lemma signature_message_same_map:
  assumes "distinct (map fst q)" "distinct (map fst q')" "map_of q = map_of q'"
  shows "signature_message q = signature_message q'"
proof -
  have "mset (map (\<lambda>(k, v). k @ ''='' @ strings_Join v '','') q) =
        mset (map (\<lambda>(k, v). k @ ''='' @ strings_Join v '','') q')"
    using same_map_mset [OF assms] by simp
  then have "sort (map (\<lambda>(k, v). k @ ''='' @ strings_Join v '','') q) =
             sort (map (\<lambda>(k, v). k @ ''='' @ strings_Join v '','') q')"
    by (rule sort_cong_mset)
  then show ?thesis by (simp only: signature_message_def Let_def)
qed

text \<open>
  C7. Two orders of insertion of the same parameters that keep, for every key, the values
  of that key in the same order give \<^verbatim>\<open>VerifyAuthorizationURL\<close> the same message and
  result, and give \<^verbatim>\<open>VerifySignature\<close> the same message and result.
\<close>

theorem canonicalization_order_independent:
  assumes "URL_Query u1 = Values_of ps1" and "URL_Query u2 = Values_of ps2"
    and "mset ps1 = mset ps2"
    and "\<forall>k. values_in k ps1 = values_in k ps2"
  shows "QueryUnescape (Values_Encode (Values_Del (Values_Del (URL_Query u1) ''hmac'') ''signature'')) =
         QueryUnescape (Values_Encode (Values_Del (Values_Del (URL_Query u2) ''hmac'') ''signature'')) \<and>
       VerifyAuthorizationURL app u1 = VerifyAuthorizationURL app u2 \<and>
       signature_message (Values_Del (URL_Query u1) ''signature'') =
         signature_message (Values_Del (URL_Query u2) ''signature'') \<and>
       VerifySignature app u1 = VerifySignature app u2"
proof -
  let ?q1 = "URL_Query u1" and ?q2 = "URL_Query u2"
  have d: "distinct (map fst ?q1)" "distinct (map fst ?q2)"
    using assms(1,2) by (simp_all add: Values_of_props)
  have m: "map_of ?q1 = map_of ?q2"
    using assms(1,2,4) by (simp add: Values_of_same_map)
  note h = Values_Del_same_map [OF d m, of "''hmac''"]
  note hs = Values_Del_same_map [OF h, of "''signature''"]
  note s = Values_Del_same_map [OF d m, of "''signature''"]
  have e: "Values_Encode (Values_Del (Values_Del ?q1 ''hmac'') ''signature'') =
           Values_Encode (Values_Del (Values_Del ?q2 ''hmac'') ''signature'')"
    by (rule Values_Encode_same_map [OF hs])
  have g: "signature_message (Values_Del ?q1 ''signature'') =
           signature_message (Values_Del ?q2 ''signature'')"
    by (rule signature_message_same_map [OF s])
  have v: "Values_Get ?q1 ''hmac'' = Values_Get ?q2 ''hmac''"
       "Values_Get ?q1 ''signature'' = Values_Get ?q2 ''signature''"
    by (rule Values_Get_same_map [OF m])+
  show ?thesis
    by (simp only: VerifyAuthorizationURL_def VerifySignature_def Let_def e g v simp_thms)
qed

lemmas query_eval = URL_Query_def parseQuery.simps strings_Cut_def parse_pair_def QueryUnescape_def
  Values_Add_def Values_vals_def Values_of_def

text \<open>
  The values of one key stay in the order of their insertion and are not sorted: the
  same two parameters with the key \<^verbatim>\<open>a\<close>, inserted in the two possible orders, give
  different messages in both modes.
\<close>

theorem repeated_key_order_matters:
  "mset [(''a'', ''1''), (''a'', ''2'')] = mset [(''a'', ''2''), (''a'', ''1'')] \<and>
   URL_Query \<lparr>Scheme = ''https'', Host = ''app.example'', Path = ''/proxy'', RawQuery = ''a=1&a=2''\<rparr>
     = Values_of [(''a'', ''1''), (''a'', ''2'')] \<and>
   URL_Query \<lparr>Scheme = ''https'', Host = ''app.example'', Path = ''/proxy'', RawQuery = ''a=2&a=1''\<rparr>
     = Values_of [(''a'', ''2''), (''a'', ''1'')] \<and>
   QueryUnescape (Values_Encode (Values_Del (Values_Del (URL_Query
       \<lparr>Scheme = ''https'', Host = ''app.example'', Path = ''/proxy'', RawQuery = ''a=1&a=2''\<rparr>)
       ''hmac'') ''signature'')) = (''a=1&a=2'', None) \<and>
   QueryUnescape (Values_Encode (Values_Del (Values_Del (URL_Query
       \<lparr>Scheme = ''https'', Host = ''app.example'', Path = ''/proxy'', RawQuery = ''a=2&a=1''\<rparr>)
       ''hmac'') ''signature'')) = (''a=2&a=1'', None) \<and>
   signature_message (Values_Del (URL_Query
       \<lparr>Scheme = ''https'', Host = ''app.example'', Path = ''/proxy'', RawQuery = ''a=1&a=2''\<rparr>)
       ''signature'') = ''a=1,2'' \<and>
   signature_message (Values_Del (URL_Query
       \<lparr>Scheme = ''https'', Host = ''app.example'', Path = ''/proxy'', RawQuery = ''a=2&a=1''\<rparr>)
       ''signature'') = ''a=2,1''"
  by (simp add: query_eval Values_Del_def Values_Encode_def QueryEscape_def escape_char_def
      shouldEscape_def between_def signature_message_def)

theorem canonicalization_order_independent_witness:
  "QueryUnescape (Values_Encode (Values_Del (Values_Del (URL_Query
       \<lparr>Scheme = ''https'', Host = ''app.example'', Path = ''/proxy'', RawQuery = ''a=1&b=2&a=3''\<rparr>)
       ''hmac'') ''signature'')) =
   QueryUnescape (Values_Encode (Values_Del (Values_Del (URL_Query
       \<lparr>Scheme = ''https'', Host = ''app.example'', Path = ''/proxy'', RawQuery = ''b=2&a=1&a=3''\<rparr>)
       ''hmac'') ''signature'')) \<and>
   VerifyAuthorizationURL \<lparr>ApiKey = ''k1'', ApiSecret = ''hush'', RedirectUrl = '''', Scope = ''''\<rparr>
       \<lparr>Scheme = ''https'', Host = ''app.example'', Path = ''/proxy'', RawQuery = ''a=1&b=2&a=3''\<rparr> =
   VerifyAuthorizationURL \<lparr>ApiKey = ''k1'', ApiSecret = ''hush'', RedirectUrl = '''', Scope = ''''\<rparr>
       \<lparr>Scheme = ''https'', Host = ''app.example'', Path = ''/proxy'', RawQuery = ''b=2&a=1&a=3''\<rparr> \<and>
   signature_message (Values_Del (URL_Query
       \<lparr>Scheme = ''https'', Host = ''app.example'', Path = ''/proxy'', RawQuery = ''a=1&b=2&a=3''\<rparr>)
       ''signature'') =
   signature_message (Values_Del (URL_Query
       \<lparr>Scheme = ''https'', Host = ''app.example'', Path = ''/proxy'', RawQuery = ''b=2&a=1&a=3''\<rparr>)
       ''signature'') \<and>
   VerifySignature \<lparr>ApiKey = ''k1'', ApiSecret = ''hush'', RedirectUrl = '''', Scope = ''''\<rparr>
       \<lparr>Scheme = ''https'', Host = ''app.example'', Path = ''/proxy'', RawQuery = ''a=1&b=2&a=3''\<rparr> =
   VerifySignature \<lparr>ApiKey = ''k1'', ApiSecret = ''hush'', RedirectUrl = '''', Scope = ''''\<rparr>
       \<lparr>Scheme = ''https'', Host = ''app.example'', Path = ''/proxy'', RawQuery = ''b=2&a=1&a=3''\<rparr>"
proof (rule canonicalization_order_independent
    [where ?ps1.0 = "[(''a'', ''1''), (''b'', ''2''), (''a'', ''3'')]"
       and ?ps2.0 = "[(''b'', ''2''), (''a'', ''1''), (''a'', ''3'')]"])
  show "URL_Query \<lparr>Scheme = ''https'', Host = ''app.example'', Path = ''/proxy'', RawQuery = ''a=1&b=2&a=3''\<rparr>
      = Values_of [(''a'', ''1''), (''b'', ''2''), (''a'', ''3'')]"
    by (simp add: query_eval)
  show "URL_Query \<lparr>Scheme = ''https'', Host = ''app.example'', Path = ''/proxy'', RawQuery = ''b=2&a=1&a=3''\<rparr>
      = Values_of [(''b'', ''2''), (''a'', ''1''), (''a'', ''3'')]"
    by (simp add: query_eval)
  show "mset [(''a'', ''1''), (''b'', ''2''), (''a'', ''3'')] = mset [(''b'', ''2''), (''a'', ''1''), (''a'', ''3'')]"
    by simp
  show "\<forall>k. values_in k [(''a'', ''1''), (''b'', ''2''), (''a'', ''3'')] =
            values_in k [(''b'', ''2''), (''a'', ''1''), (''a'', ''3'')]"
    by (simp add: values_in_def)
qed

lemma parseQuery_empty: "URL_Query (u\<lparr>RawQuery := ''''\<rparr>) = []"
  by (simp add: URL_Query_def parseQuery.simps)

lemma sort_four_keys:
  "sort [''client_id'', ''redirect_uri'', ''scope'', ''state''] =
     [''client_id'', ''redirect_uri'', ''scope'', ''state'']"
  by simp

lemma QueryEscape_keys:
  "QueryEscape ''client_id'' = ''client_id''" "QueryEscape ''redirect_uri'' = ''redirect_uri''"
  "QueryEscape ''scope'' = ''scope''" "QueryEscape ''state'' = ''state''"
  by (simp_all add: QueryEscape_def escape_char_def shouldEscape_def between_def)

section \<open>The authorization URL\<close>

lemma distinct_parse_pair:
  "distinct (map fst m) \<Longrightarrow> distinct (map fst (parse_pair piece m))"
  by (auto simp: parse_pair_def Values_Add_def distinct_Values_put split: prod.splits option.splits)

lemma distinct_parseQuery:
  "distinct (map fst m) \<Longrightarrow> distinct (map fst (parseQuery m query))"
proof (induction m query rule: parseQuery.induct)
  case (1 m query)
  show ?case
  proof (cases "query = ''''")
    case True
    with 1 show ?thesis by (subst parseQuery.simps) simp
  next
    case False
    with 1 show ?thesis by (subst parseQuery.simps) (simp add: distinct_parse_pair)
  qed
qed

lemma distinct_URL_Query: "distinct (map fst (URL_Query u))"
  by (simp add: URL_Query_def distinct_parseQuery)

lemma URL_Query_Path: "URL_Query (u\<lparr>Path := p\<rparr>) = URL_Query u"
  by (simp add: URL_Query_def)

lemma set_fst_Values_put: "set (map fst (Values_put k vs q)) = insert k (set (map fst q))"
  unfolding fst_Values_put by auto

lemma Values_Encode_four:
  "Values_Encode [(''client_id'', [a]), (''redirect_uri'', [b]), (''scope'', [c]), (''state'', [d])] =
     ''client_id='' @ QueryEscape a @ ''&redirect_uri='' @ QueryEscape b @
     ''&scope='' @ QueryEscape c @ ''&state='' @ QueryEscape d"
  unfolding Values_Encode_def list.map fst_conv sort_four_keys
  by (simp add: Values_vals_def QueryEscape_keys)

text \<open>
  When the parsing of the base URL fails, the call does not return: it panics.
\<close>

lemma AuthorizeUrl_parse_failure:
  "url_Parse (ShopBaseUrl shopName) = None \<Longrightarrow>
     AuthorizeUrl url_Parse url_String ShopBaseUrl app shopName state =
       Panics ''invalid memory address or nil pointer dereference''"
  by (simp add: AuthorizeUrl_def)

text \<open>
  C8. For every shop name whose base URL parses, \<^verbatim>\<open>AuthorizeUrl\<close> returns the text of
  the base URL with the path \<^verbatim>\<open>/admin/oauth/authorize\<close> and with the encoding of these
  query values: the values of the base URL's own query in which \<^verbatim>\<open>client_id\<close>,
  \<^verbatim>\<open>redirect_uri\<close>, \<^verbatim>\<open>scope\<close> and \<^verbatim>\<open>state\<close> are set. Each of the four keys is present once
  with exactly one value, empty or not: the API key, the redirect URL and the scope of the
  application, and the given state. Every other key has the values that the base URL gave
  it, so the keys are exactly the four when the base URL has no query of its own.
\<close>

theorem AuthorizeUrl_query_parameters:
  assumes "url_Parse (ShopBaseUrl shopName) = Some base"
  shows "AuthorizeUrl url_Parse url_String ShopBaseUrl app shopName state =
           Returns (url_String (base\<lparr>Path := ''/admin/oauth/authorize'',
             RawQuery := Values_Encode
               (AuthorizeUrl_query app (base\<lparr>Path := ''/admin/oauth/authorize''\<rparr>) state)\<rparr>)) \<and>
         distinct (map fst (AuthorizeUrl_query app (base\<lparr>Path := ''/admin/oauth/authorize''\<rparr>) state)) \<and>
         set (map fst (AuthorizeUrl_query app (base\<lparr>Path := ''/admin/oauth/authorize''\<rparr>) state)) =
           set (map fst (URL_Query base)) \<union> {''client_id'', ''redirect_uri'', ''scope'', ''state''} \<and>
         Values_vals (AuthorizeUrl_query app (base\<lparr>Path := ''/admin/oauth/authorize''\<rparr>) state)
           ''client_id'' = [ApiKey app] \<and>
         Values_vals (AuthorizeUrl_query app (base\<lparr>Path := ''/admin/oauth/authorize''\<rparr>) state)
           ''redirect_uri'' = [RedirectUrl app] \<and>
         Values_vals (AuthorizeUrl_query app (base\<lparr>Path := ''/admin/oauth/authorize''\<rparr>) state)
           ''scope'' = [Scope app] \<and>
         Values_vals (AuthorizeUrl_query app (base\<lparr>Path := ''/admin/oauth/authorize''\<rparr>) state)
           ''state'' = [state] \<and>
         (\<forall>k. k \<notin> {''client_id'', ''redirect_uri'', ''scope'', ''state''} \<longrightarrow>
            Values_vals (AuthorizeUrl_query app (base\<lparr>Path := ''/admin/oauth/authorize''\<rparr>) state) k =
              Values_vals (URL_Query base) k) \<and>
         (RawQuery base = '''' \<longrightarrow>
            AuthorizeUrl_query app (base\<lparr>Path := ''/admin/oauth/authorize''\<rparr>) state =
              [(''client_id'', [ApiKey app]), (''redirect_uri'', [RedirectUrl app]),
               (''scope'', [Scope app]), (''state'', [state])] \<and>
            Values_Encode (AuthorizeUrl_query app (base\<lparr>Path := ''/admin/oauth/authorize''\<rparr>) state) =
              ''client_id='' @ QueryEscape (ApiKey app) @
              ''&redirect_uri='' @ QueryEscape (RedirectUrl app) @
              ''&scope='' @ QueryEscape (Scope app) @
              ''&state='' @ QueryEscape state)"
proof -
  let ?Q = "AuthorizeUrl_query app (base\<lparr>Path := ''/admin/oauth/authorize''\<rparr>) state"
  have Q: "?Q = Values_put ''state'' [state] (Values_put ''scope'' [Scope app]
      (Values_put ''redirect_uri'' [RedirectUrl app]
        (Values_put ''client_id'' [ApiKey app] (URL_Query base))))"
    by (simp add: AuthorizeUrl_query_def Values_Set_def URL_Query_Path)
  have r: "AuthorizeUrl url_Parse url_String ShopBaseUrl app shopName state =
           Returns (url_String (base\<lparr>Path := ''/admin/oauth/authorize'', RawQuery := Values_Encode ?Q\<rparr>))"
    using assms by (simp add: AuthorizeUrl_def Let_def)
  have d: "distinct (map fst ?Q)"
    unfolding Q by (intro distinct_Values_put distinct_URL_Query)
  have k: "set (map fst ?Q) =
      set (map fst (URL_Query base)) \<union> {''client_id'', ''redirect_uri'', ''scope'', ''state''}"
    unfolding Q set_fst_Values_put by auto
  have v: "Values_vals ?Q ''client_id'' = [ApiKey app]"
      "Values_vals ?Q ''redirect_uri'' = [RedirectUrl app]"
      "Values_vals ?Q ''scope'' = [Scope app]"
      "Values_vals ?Q ''state'' = [state]"
    unfolding Q by (simp_all add: Values_vals_put)
  have o: "\<forall>k. k \<notin> {''client_id'', ''redirect_uri'', ''scope'', ''state''} \<longrightarrow>
      Values_vals ?Q k = Values_vals (URL_Query base) k"
    unfolding Q by (simp add: Values_vals_put)
  have e: "RawQuery base = '''' \<longrightarrow>
      ?Q = [(''client_id'', [ApiKey app]), (''redirect_uri'', [RedirectUrl app]),
            (''scope'', [Scope app]), (''state'', [state])] \<and>
      Values_Encode ?Q = ''client_id='' @ QueryEscape (ApiKey app) @
              ''&redirect_uri='' @ QueryEscape (RedirectUrl app) @
              ''&scope='' @ QueryEscape (Scope app) @
              ''&state='' @ QueryEscape state"
  proof
    assume "RawQuery base = ''''"
    then have "?Q = [(''client_id'', [ApiKey app]), (''redirect_uri'', [RedirectUrl app]),
            (''scope'', [Scope app]), (''state'', [state])]"
      unfolding Q by (simp add: URL_Query_def parseQuery.simps)
    then show "?Q = [(''client_id'', [ApiKey app]), (''redirect_uri'', [RedirectUrl app]),
            (''scope'', [Scope app]), (''state'', [state])] \<and>
      Values_Encode ?Q = ''client_id='' @ QueryEscape (ApiKey app) @
              ''&redirect_uri='' @ QueryEscape (RedirectUrl app) @
              ''&scope='' @ QueryEscape (Scope app) @
              ''&state='' @ QueryEscape state"
      by (simp only: Values_Encode_four simp_thms)
  qed
  from r d k v o e show ?thesis by (intro conjI)
qed

text \<open>
  The shop \<^verbatim>\<open>acme\<close>, the API key \<^verbatim>\<open>k1\<close>, the redirect URL \<^verbatim>\<open>https://app.example/cb\<close>, the
  scope \<^verbatim>\<open>read_products\<close> and the state \<^verbatim>\<open>xyz\<close>. Modelled from the spec: the base URL of a
  shop is \<^verbatim>\<open>https://{shop}.myshopify.com\<close>. For this URL, which has a scheme, a host and
  nothing else, \<^verbatim>\<open>url.Parse\<close> and \<^verbatim>\<open>URL.String\<close> are as written here.
\<close>

theorem AuthorizeUrl_query_parameters_witness:
  "AuthorizeUrl
     (\<lambda>s. if s = ''https://acme.myshopify.com''
          then Some \<lparr>Scheme = ''https'', Host = ''acme.myshopify.com'', Path = '''', RawQuery = ''''\<rparr>
          else None)
     (\<lambda>u. Scheme u @ ''://'' @ Host u @ Path u @ ''?'' @ RawQuery u)
     (\<lambda>name. ''https://'' @ name @ ''.myshopify.com'')
     \<lparr>ApiKey = ''k1'', ApiSecret = ''hush'', RedirectUrl = ''https://app.example/cb'',
      Scope = ''read_products''\<rparr> ''acme'' ''xyz'' =
   Returns ''https://acme.myshopify.com/admin/oauth/authorize?client_id=k1&redirect_uri=https%3A%2F%2Fapp.example%2Fcb&scope=read_products&state=xyz'' \<and>
   AuthorizeUrl_query
     \<lparr>ApiKey = ''k1'', ApiSecret = ''hush'', RedirectUrl = ''https://app.example/cb'',
      Scope = ''read_products''\<rparr>
     \<lparr>Scheme = ''https'', Host = ''acme.myshopify.com'', Path = ''/admin/oauth/authorize'',
      RawQuery = ''''\<rparr> ''xyz'' =
   [(''client_id'', [''k1'']), (''redirect_uri'', [''https://app.example/cb'']),
    (''scope'', [''read_products'']), (''state'', [''xyz''])]"
  using AuthorizeUrl_query_parameters
    [where url_Parse = "\<lambda>s. if s = ''https://acme.myshopify.com''
          then Some \<lparr>Scheme = ''https'', Host = ''acme.myshopify.com'', Path = '''', RawQuery = ''''\<rparr>
          else None"
       and url_String = "\<lambda>u. Scheme u @ ''://'' @ Host u @ Path u @ ''?'' @ RawQuery u"
       and ShopBaseUrl = "\<lambda>name. ''https://'' @ name @ ''.myshopify.com''"
       and shopName = "''acme''"
       and base = "\<lparr>Scheme = ''https'', Host = ''acme.myshopify.com'', Path = '''', RawQuery = ''''\<rparr>"
       and app = "\<lparr>ApiKey = ''k1'', ApiSecret = ''hush'', RedirectUrl = ''https://app.example/cb'',
      Scope = ''read_products''\<rparr>"
       and state = "''xyz''"]
  by (simp add: Values_Encode_four QueryEscape_def escape_char_def shouldEscape_def between_def
      upperhex_def)

text \<open>
  The shop name \<^verbatim>\<open>acme?x=1\<close>: its base URL \<^verbatim>\<open>https://acme?x=1.myshopify.com\<close> parses to the
  host \<^verbatim>\<open>acme\<close> and the query \<^verbatim>\<open>x=1.myshopify.com\<close>, and the query of the URL returned has
  five keys. The base URL is formed as above; for this URL, which has a scheme, a host, a
  query and nothing else, \<^verbatim>\<open>url.Parse\<close> and \<^verbatim>\<open>URL.String\<close> are as written here.
\<close>

theorem AuthorizeUrl_keeps_base_query:
  "AuthorizeUrl
     (\<lambda>s. if s = ''https://acme?x=1.myshopify.com''
          then Some \<lparr>Scheme = ''https'', Host = ''acme'', Path = '''',
                     RawQuery = ''x=1.myshopify.com''\<rparr>
          else None)
     (\<lambda>u. Scheme u @ ''://'' @ Host u @ Path u @ ''?'' @ RawQuery u)
     (\<lambda>name. ''https://'' @ name @ ''.myshopify.com'')
     \<lparr>ApiKey = ''k1'', ApiSecret = ''hush'', RedirectUrl = ''https://app.example/cb'',
      Scope = ''read_products''\<rparr> ''acme?x=1'' ''xyz'' =
   Returns ''https://acme/admin/oauth/authorize?client_id=k1&redirect_uri=https%3A%2F%2Fapp.example%2Fcb&scope=read_products&state=xyz&x=1.myshopify.com'' \<and>
   AuthorizeUrl_query
     \<lparr>ApiKey = ''k1'', ApiSecret = ''hush'', RedirectUrl = ''https://app.example/cb'',
      Scope = ''read_products''\<rparr>
     \<lparr>Scheme = ''https'', Host = ''acme'', Path = ''/admin/oauth/authorize'',
      RawQuery = ''x=1.myshopify.com''\<rparr> ''xyz'' =
   [(''x'', [''1.myshopify.com'']), (''client_id'', [''k1'']),
    (''redirect_uri'', [''https://app.example/cb'']), (''scope'', [''read_products'']),
    (''state'', [''xyz''])]"
proof -
  have q: "AuthorizeUrl_query
     \<lparr>ApiKey = ''k1'', ApiSecret = ''hush'', RedirectUrl = ''https://app.example/cb'',
      Scope = ''read_products''\<rparr>
     \<lparr>Scheme = ''https'', Host = ''acme'', Path = ''/admin/oauth/authorize'',
      RawQuery = ''x=1.myshopify.com''\<rparr> ''xyz'' =
   [(''x'', [''1.myshopify.com'']), (''client_id'', [''k1'']),
    (''redirect_uri'', [''https://app.example/cb'']), (''scope'', [''read_products'']),
    (''state'', [''xyz''])]"
    by (simp add: AuthorizeUrl_query_def Values_Set_def query_eval)
  have s: "sort [''x'', ''client_id'', ''redirect_uri'', ''scope'', ''state''] =
      [''client_id'', ''redirect_uri'', ''scope'', ''state'', ''x'']"
    by simp
  have e: "Values_Encode [(''x'', [''1.myshopify.com'']), (''client_id'', [''k1'']),
    (''redirect_uri'', [''https://app.example/cb'']), (''scope'', [''read_products'']),
    (''state'', [''xyz''])] =
    ''client_id=k1&redirect_uri=https%3A%2F%2Fapp.example%2Fcb&scope=read_products&state=xyz&x=1.myshopify.com''"
    unfolding Values_Encode_def list.map fst_conv s
    by (simp add: Values_vals_def QueryEscape_def escape_char_def shouldEscape_def between_def
        upperhex_def)
  show ?thesis
    by (simp add: AuthorizeUrl_def Let_def q e)
qed

section \<open>Examples of accepted messages\<close>

lemma hex_encode_example:
  "hex_EncodeToString
     [6, 227, 170, 57, 60, 201, 252, 251, 107, 11, 234, 105, 119, 220, 4, 106, 203, 201, 86, 216,
      188, 91, 184, 119, 238, 150, 145, 175, 46, 45, 189, 217] =
   ''06e3aa393cc9fcfb6b0bea6977dc046acbc956d8bc5bb877ee9691af2e2dbdd9''"
  by (simp add: hex_EncodeToString_def hextable_def)

lemma webhook_body_kept:
  "fault (Body req) = None \<Longrightarrow>
     Body (snd (VerifyWebhookRequest app req)) = Body req \<and>
     Body (snd (VerifyWebhookRequestVerbose app req)) = Body req"
  by (cases "b64_DecodeString (Header_Get (Header req) shopifyChecksumHeader)")
     (auto simp add: VerifyWebhookRequest_body Verbose_body NopCloser_Buffer_def split: option.splits)

theorem VerifySignature_message_witness:
  "VerifySignature
     \<lparr>ApiKey = ''k1'', ApiSecret = ''hush'', RedirectUrl = '''', Scope = ''''\<rparr>
     \<lparr>Scheme = ''https'', Host = ''app.example'', Path = ''/proxy'',
      RawQuery = ''signature=06e3aa393cc9fcfb6b0bea6977dc046acbc956d8bc5bb877ee9691af2e2dbdd9&shop=acme.myshopify.com''\<rparr>"
proof -
  let ?u = "\<lparr>Scheme = ''https'', Host = ''app.example'', Path = ''/proxy'',
      RawQuery = ''signature=06e3aa393cc9fcfb6b0bea6977dc046acbc956d8bc5bb877ee9691af2e2dbdd9&shop=acme.myshopify.com''\<rparr>"
  have q: "URL_Query ?u =
      [(''signature'', [''06e3aa393cc9fcfb6b0bea6977dc046acbc956d8bc5bb877ee9691af2e2dbdd9'']),
       (''shop'', [''acme.myshopify.com''])]"
    by (simp add: query_eval)
  have m: "proxy_message
      [(''signature'', [''06e3aa393cc9fcfb6b0bea6977dc046acbc956d8bc5bb877ee9691af2e2dbdd9'']),
       (''shop'', [''acme.myshopify.com''])] = ''shop=acme.myshopify.com''"
    by (simp add: proxy_message_def)
  have g: "Values_Get
      [(''signature'', [''06e3aa393cc9fcfb6b0bea6977dc046acbc956d8bc5bb877ee9691af2e2dbdd9'']),
       (''shop'', [''acme.myshopify.com''])] ''signature''
      = hex_EncodeToString (hmac_sha256 (bytes_of ''hush'') (bytes_of ''shop=acme.myshopify.com''))"
    by (simp add: Values_Get_def Values_vals_def hmac_sha256_example hex_encode_example)
  show ?thesis
    using VerifySignature_message
      [of "\<lparr>ApiKey = ''k1'', ApiSecret = ''hush'', RedirectUrl = '''', Scope = ''''\<rparr>" ?u]
    by (simp only: q m g App.select_convs simp_thms)
qed

theorem VerifyWebhookRequest_no_preconditions_witness:
  "fst (VerifyWebhookRequest
     \<lparr>ApiKey = ''k1'', ApiSecret = '''', RedirectUrl = '''', Scope = ''''\<rparr>
     \<lparr>Header = [''X-Shopify-Hmac-Sha256'' \<mapsto> [b64_EncodeToString (hmac_sha256 [] [])]],
      Body = \<lparr>pending = [], fault = None\<rparr>\<rparr>) \<and>
   fst (VerifyWebhookRequestVerbose
     \<lparr>ApiKey = ''k1'', ApiSecret = '''', RedirectUrl = '''', Scope = ''''\<rparr>
     \<lparr>Header = [''X-Shopify-Hmac-Sha256'' \<mapsto> [b64_EncodeToString (hmac_sha256 [] [])]],
      Body = \<lparr>pending = [], fault = None\<rparr>\<rparr>) = (False, Some (ErrorString ''ApiSecret is empty''))"
  using VerifyWebhookRequest_no_preconditions
    [of "\<lparr>ApiKey = ''k1'', ApiSecret = '''', RedirectUrl = '''', Scope = ''''\<rparr>"
        "\<lparr>Header = [''X-Shopify-Hmac-Sha256'' \<mapsto> [b64_EncodeToString (hmac_sha256 [] [])]],
      Body = \<lparr>pending = [], fault = None\<rparr>\<rparr>"]
  by (simp add: Header_Get_def shopifyChecksumHeader_def bytes_of_def Verbose_cases)

section \<open>The callback and a parameter that does not decode\<close>

text \<open>
  C5. \<^verbatim>\<open>VerifyAuthorizationURL\<close> is to verify the \<^verbatim>\<open>hmac\<close> parameter as the hexadecimal
  text of the code of the message. For the secret \<^verbatim>\<open>hush\<close> and the callback query
  \<^verbatim>\<open>shop=acme.myshopify.com&hmac=...\<close>, where the parameter is made of the 64 digits of
  the right code and the two characters \<^verbatim>\<open>zz\<close>, the message is \<^verbatim>\<open>shop=acme.myshopify.com\<close>
  as the specification describes it, the parameter is not hexadecimal text (decoding it
  fails at \<^verbatim>\<open>z\<close>) and is not the text of the code of the message, and
  \<^verbatim>\<open>VerifyAuthorizationURL\<close> returns true with no error.
\<close>

theorem VerifyAuthorizationURL_accepts_undecodable_hmac:
  "callback_message (URL_Query
     \<lparr>Scheme = ''https'', Host = ''app.example'', Path = ''/callback'',
      RawQuery = ''shop=acme.myshopify.com&hmac=06e3aa393cc9fcfb6b0bea6977dc046acbc956d8bc5bb877ee9691af2e2dbdd9zz''\<rparr>)
     = ''shop=acme.myshopify.com'' \<and>
   snd (hex_DecodeString (Values_Get (URL_Query
     \<lparr>Scheme = ''https'', Host = ''app.example'', Path = ''/callback'',
      RawQuery = ''shop=acme.myshopify.com&hmac=06e3aa393cc9fcfb6b0bea6977dc046acbc956d8bc5bb877ee9691af2e2dbdd9zz''\<rparr>)
     ''hmac'')) = Some (InvalidByteError CHR ''z'') \<and>
   Values_Get (URL_Query
     \<lparr>Scheme = ''https'', Host = ''app.example'', Path = ''/callback'',
      RawQuery = ''shop=acme.myshopify.com&hmac=06e3aa393cc9fcfb6b0bea6977dc046acbc956d8bc5bb877ee9691af2e2dbdd9zz''\<rparr>)
     ''hmac'' \<noteq>
     hex_EncodeToString (hmac_sha256 (bytes_of ''hush'') (bytes_of ''shop=acme.myshopify.com'')) \<and>
   VerifyAuthorizationURL
     \<lparr>ApiKey = ''k1'', ApiSecret = ''hush'', RedirectUrl = '''', Scope = ''''\<rparr>
     \<lparr>Scheme = ''https'', Host = ''app.example'', Path = ''/callback'',
      RawQuery = ''shop=acme.myshopify.com&hmac=06e3aa393cc9fcfb6b0bea6977dc046acbc956d8bc5bb877ee9691af2e2dbdd9zz''\<rparr>
     = (True, None)"
proof -
  let ?u = "\<lparr>Scheme = ''https'', Host = ''app.example'', Path = ''/callback'',
      RawQuery = ''shop=acme.myshopify.com&hmac=06e3aa393cc9fcfb6b0bea6977dc046acbc956d8bc5bb877ee9691af2e2dbdd9zz''\<rparr>"
  let ?q = "[(''shop'', [''acme.myshopify.com'']),
      (''hmac'', [''06e3aa393cc9fcfb6b0bea6977dc046acbc956d8bc5bb877ee9691af2e2dbdd9zz''])]"
  have q: "URL_Query ?u = ?q"
    by (simp add: query_eval)
  have e: "Values_Encode (Values_Del (Values_Del ?q ''hmac'') ''signature'') = ''shop=acme.myshopify.com''"
    by (simp add: Values_Del_def Values_Encode_def Values_vals_def QueryEscape_def
        escape_char_def shouldEscape_def between_def)
  have m: "callback_message ?q = ''shop=acme.myshopify.com''"
    by (simp add: callback_message_def Values_Encode_def Values_vals_def QueryEscape_def
        escape_char_def shouldEscape_def between_def)
  have g: "Values_Get ?q ''hmac'' =
      ''06e3aa393cc9fcfb6b0bea6977dc046acbc956d8bc5bb877ee9691af2e2dbdd9zz''"
    by (simp add: Values_Get_def Values_vals_def)
  have n: "''06e3aa393cc9fcfb6b0bea6977dc046acbc956d8bc5bb877ee9691af2e2dbdd9zz'' \<noteq>
      hex_EncodeToString (hmac_sha256 (bytes_of ''hush'') (bytes_of ''shop=acme.myshopify.com''))"
    by (simp add: hmac_sha256_example hex_encode_example)
  have u: "QueryUnescape ''shop=acme.myshopify.com'' = (''shop=acme.myshopify.com'', None)"
    by (simp add: QueryUnescape_def)
  have v: "VerifyAuthorizationURL
     \<lparr>ApiKey = ''k1'', ApiSecret = ''hush'', RedirectUrl = '''', Scope = ''''\<rparr> ?u = (True, None)"
    unfolding VerifyAuthorizationURL_def Let_def q g e u VerifyMessage_def
    by (simp only: hex_example hmac_sha256_example hmac_Equal_iff App.select_convs fst_conv
        prod.case simp_thms)
  show ?thesis
    unfolding q g m
    by (simp only: v n hex_example snd_conv simp_thms not_False_eq_True)
qed

end
